theory Spec2Isabelle
  imports Complex_Main
begin

section \<open>SmartPatrol: route assignments and checkpoint scans\<close>

text \<open>
  A shallow embedding of the route-assignment controller
  (\<^verbatim>\<open>controllers/routeAssignmentController.js\<close>) and of the scan handler of the
  checkpoint controller (\<^verbatim>\<open>controllers/checkpointController.js\<close>, the variant whose
  fallback scan radius is 50).

  Conventions of the embedding.
  \<^item> A Sequelize table is the list of its rows in storage order; \<^verbatim>\<open>findByPk\<close> and
    \<^verbatim>\<open>findOne\<close> are \<open>find\<close>, \<^verbatim>\<open>findAll\<close> is \<open>filter\<close>, \<^verbatim>\<open>instance.update\<close> rewrites
    the rows with the instance's primary key, \<^verbatim>\<open>create\<close> validates the row against the
    model and appends it with a fresh key.
  \<^item> A handler takes the database and returns the response together with the new
    database; an error response is \<open>Inl\<close>.
  \<^item> The double-precision arithmetic of the runtime and its \<^verbatim>\<open>Math\<close> library are a
    parameter of the handlers: nothing is assumed about how they round.
  \<^item> Numeric identifiers are natural numbers; \<open>0\<close> is the falsy value that the
    handlers' \<^verbatim>\<open>!x\<close> tests reject.
  \<^item> The clock (\<^verbatim>\<open>new Date()\<close>), its \<^verbatim>\<open>toLocaleString()\<close> rendering and the blob store
    are inputs of a handler, collected in an environment record.
\<close>

subsection \<open>JavaScript numbers\<close>

text \<open>
  A JavaScript number is \<^verbatim>\<open>NaN\<close>, an infinity or a finite value; a finite double is a
  real number. Negative zero is not told apart from zero.
\<close>

datatype jsnum = NaN | NegInf | Num real | PosInf

text \<open>\<^verbatim>\<open>x <= y\<close>: false as soon as one side is \<^verbatim>\<open>NaN\<close>.\<close>

fun js_le :: "jsnum \<Rightarrow> jsnum \<Rightarrow> bool" where
  "js_le NaN y = False"
| "js_le x NaN = False"
| "js_le NegInf y = True"
| "js_le x PosInf = True"
| "js_le (Num x) (Num y) = (x \<le> y)"
| "js_le x y = False"

text \<open>
  \<^verbatim>\<open>Math.round\<close>: the nearest integer, halves rounded up; \<^verbatim>\<open>NaN\<close> and the infinities
  are returned as they are. It is exact: it involves no rounding of its own.
\<close>

fun js_round :: "jsnum \<Rightarrow> jsnum" where
  "js_round (Num x) = Num (of_int \<lfloor>x + 1 / 2\<rfloor>)"
| "js_round x = x"

text \<open>
  The arithmetic the handlers compute with: the operators \<^verbatim>\<open>+\<close>, \<^verbatim>\<open>-\<close>, \<^verbatim>\<open>*\<close>, \<^verbatim>\<open>/\<close> on
  numbers, and \<^verbatim>\<open>Math.sin\<close>, \<^verbatim>\<open>Math.cos\<close>, \<^verbatim>\<open>Math.sqrt\<close>, \<^verbatim>\<open>Math.atan2\<close> and \<^verbatim>\<open>Math.PI\<close>.
  They belong to the runtime, not to the repository.
\<close>

record jsMath =
  num_add :: "jsnum \<Rightarrow> jsnum \<Rightarrow> jsnum"
  num_sub :: "jsnum \<Rightarrow> jsnum \<Rightarrow> jsnum"
  num_mul :: "jsnum \<Rightarrow> jsnum \<Rightarrow> jsnum"
  num_div :: "jsnum \<Rightarrow> jsnum \<Rightarrow> jsnum"
  Math_sin :: "jsnum \<Rightarrow> jsnum"
  Math_cos :: "jsnum \<Rightarrow> jsnum"
  Math_sqrt :: "jsnum \<Rightarrow> jsnum"
  Math_atan2 :: "jsnum \<Rightarrow> jsnum \<Rightarrow> jsnum"
  Math_PI :: jsnum

subsection \<open>Great-circle distance\<close>

text \<open>
  The Haversine computation of \<^verbatim>\<open>scanQRCode\<close>, operation by operation in the order
  JavaScript evaluates it. First the term \<^verbatim>\<open>a\<close>, from \<^verbatim>\<open>\<phi>1\<close>, \<^verbatim>\<open>\<phi>2\<close>, \<^verbatim>\<open>\<Delta>\<phi>\<close> and
  \<^verbatim>\<open>\<Delta>\<lambda>\<close>.
\<close>

definition haversineA :: "jsMath \<Rightarrow> real \<Rightarrow> real \<Rightarrow> real \<Rightarrow> real \<Rightarrow> jsnum" where
  "haversineA m userLat userLng checkpointLat checkpointLng =
     (let phi1 = num_div m (num_mul m (Num userLat) (Math_PI m)) (Num 180);
          phi2 = num_div m (num_mul m (Num checkpointLat) (Math_PI m)) (Num 180);
          dphi = num_div m
                   (num_mul m (num_sub m (Num checkpointLat) (Num userLat)) (Math_PI m))
                   (Num 180);
          dlambda = num_div m
                      (num_mul m (num_sub m (Num checkpointLng) (Num userLng)) (Math_PI m))
                      (Num 180)
      in num_add m
           (num_mul m (Math_sin m (num_div m dphi (Num 2))) (Math_sin m (num_div m dphi (Num 2))))
           (num_mul m
              (num_mul m
                 (num_mul m (Math_cos m phi1) (Math_cos m phi2))
                 (Math_sin m (num_div m dlambda (Num 2))))
              (Math_sin m (num_div m dlambda (Num 2)))))"

text \<open>
  \<^verbatim>\<open>const R = 6371e3\<close>, \<^verbatim>\<open>c = 2 * Math.atan2(Math.sqrt(a), Math.sqrt(1 - a))\<close> and
  \<^verbatim>\<open>distance = R * c\<close>.
\<close>

definition distance :: "jsMath \<Rightarrow> real \<Rightarrow> real \<Rightarrow> real \<Rightarrow> real \<Rightarrow> jsnum" where
  "distance m userLat userLng checkpointLat checkpointLng =
     (let a = haversineA m userLat userLng checkpointLat checkpointLng;
          c = num_mul m (Num 2)
                (Math_atan2 m (Math_sqrt m a) (Math_sqrt m (num_sub m (Num 1) a)))
      in num_mul m (Num 6371000) c)"

subsection \<open>Arithmetic without rounding\<close>

text \<open>
  The same computation over the real numbers, and the arithmetic that computes it:
  every operation exact. It serves to run the handlers on sample inputs; doubles
  differ from it by the rounding of each operation. A result that is not a finite
  number is \<^verbatim>\<open>NaN\<close> here.
\<close>

definition realAtan2 :: "real \<Rightarrow> real \<Rightarrow> real" where
  "realAtan2 y x =
     (if 0 < x then arctan (y / x)
      else if x < 0 then (if 0 \<le> y then arctan (y / x) + pi else arctan (y / x) - pi)
      else if 0 < y then pi / 2
      else if y < 0 then - (pi / 2)
      else 0)"

definition earthRadius :: real where
  "earthRadius = 6371000"

definition realHaversineA :: "real \<Rightarrow> real \<Rightarrow> real \<Rightarrow> real \<Rightarrow> real" where
  "realHaversineA userLat userLng checkpointLat checkpointLng =
     (let phi1 = userLat * pi / 180;
          phi2 = checkpointLat * pi / 180;
          dphi = (checkpointLat - userLat) * pi / 180;
          dlambda = (checkpointLng - userLng) * pi / 180
      in sin (dphi / 2) * sin (dphi / 2) +
         cos phi1 * cos phi2 * sin (dlambda / 2) * sin (dlambda / 2))"

definition realDistance :: "real \<Rightarrow> real \<Rightarrow> real \<Rightarrow> real \<Rightarrow> real" where
  "realDistance userLat userLng checkpointLat checkpointLng =
     (let a = realHaversineA userLat userLng checkpointLat checkpointLng;
          c = 2 * realAtan2 (sqrt a) (sqrt (1 - a))
      in earthRadius * c)"

definition exact1 :: "(real \<Rightarrow> real) \<Rightarrow> jsnum \<Rightarrow> jsnum" where
  "exact1 f x = (case x of Num a \<Rightarrow> Num (f a) | _ \<Rightarrow> NaN)"

definition exact2 :: "(real \<Rightarrow> real \<Rightarrow> real) \<Rightarrow> jsnum \<Rightarrow> jsnum \<Rightarrow> jsnum" where
  "exact2 f x y =
     (case x of Num a \<Rightarrow> (case y of Num b \<Rightarrow> Num (f a b) | _ \<Rightarrow> NaN) | _ \<Rightarrow> NaN)"

definition exactDiv :: "jsnum \<Rightarrow> jsnum \<Rightarrow> jsnum" where
  "exactDiv x y =
     (case x of
        Num a \<Rightarrow> (case y of Num b \<Rightarrow> if b = 0 then NaN else Num (a / b) | _ \<Rightarrow> NaN)
      | _ \<Rightarrow> NaN)"

definition exactSqrt :: "jsnum \<Rightarrow> jsnum" where
  "exactSqrt x = (case x of Num a \<Rightarrow> if a < 0 then NaN else Num (sqrt a) | _ \<Rightarrow> NaN)"

definition exactMath :: jsMath where
  "exactMath =
     \<lparr>num_add = exact2 (+), num_sub = exact2 (-), num_mul = exact2 (*), num_div = exactDiv,
      Math_sin = exact1 sin, Math_cos = exact1 cos, Math_sqrt = exactSqrt,
      Math_atan2 = exact2 realAtan2, Math_PI = Num pi\<rparr>"

subsection \<open>Data model\<close>

text \<open>Timestamps are milliseconds since the epoch.\<close>

type_synonym time = nat

text \<open>The \<^verbatim>\<open>status\<close> enumeration of \<^verbatim>\<open>models/RouteAssignment.js\<close>.\<close>

datatype status = Assigned | InProgress | Completed | Cancelled

record User =
  userPk :: nat
  username :: string

text \<open>\<^verbatim>\<open>models/Route.js\<close>: \<open>checkpoints\<close> is the JSON array of checkpoint ids.\<close>

record Route =
  routePk :: nat
  routeName :: string
  checkpoints :: "nat list"
  routeIsActive :: bool

text \<open>
  \<^verbatim>\<open>models/Checkpoint.js\<close>. \<open>latitude\<close> and \<open>longitude\<close> are what \<^verbatim>\<open>getLatitude()\<close> and
  \<^verbatim>\<open>getLongitude()\<close> read from the stored \<^verbatim>\<open>lat_long\<close> string, which
  \<^verbatim>\<open>createCheckpoint\<close> validated. \<open>scanRadius\<close> is a nullable integer column that
  \<^verbatim>\<open>updateCheckpoint\<close> writes unvalidated.
\<close>

record Checkpoint =
  checkpointPk :: nat
  checkpointName :: string
  latitude :: real
  longitude :: real
  scanRadius :: "int option"
  qrCode :: "string option"
  checkpointIsActive :: bool
  checkpointStation :: nat

text \<open>\<^verbatim>\<open>models/RouteAssignment.js\<close>.\<close>

record RouteAssignment =
  assignmentPk :: nat
  userId :: nat
  routeId :: nat
  policeStationId :: "nat option"
  startDate :: "time option"
  endDate :: "time option"
  status :: status
  completedCheckpoints :: "nat list"
  assignmentNotes :: "string option"
  isActive :: bool
  createdAt :: time

text \<open>
  The user position of a request, after \<^verbatim>\<open>split(',')\<close> and \<^verbatim>\<open>parseFloat\<close>: the list of
  the parsed parts, \<open>None\<close> for a part that parses to \<^verbatim>\<open>NaN\<close>.
\<close>

datatype latLong = LatLongMissing | LatLongNotString | LatLongParts "real option list"

text \<open>
  A row of \<^verbatim>\<open>models/CheckpointScan.js\<close>, and the values passed to
  \<^verbatim>\<open>CheckpointScan.create\<close>. The column \<^verbatim>\<open>routeId\<close> is declared \<^verbatim>\<open>allowNull: false\<close>;
  \<open>scanRouteId\<close> is \<open>None\<close> when the caller passes no \<^verbatim>\<open>routeId\<close>.
\<close>

record CheckpointScan =
  scanPk :: nat
  scanUserId :: nat
  scanCheckpointId :: nat
  scanRouteId :: "nat option"
  routeAssignmentId :: nat
  scanUserLatLong :: latLong
  scanDistance :: jsnum
  scanNotes :: "string option"
  images :: "string list"
  videos :: "string list"
  audios :: "string list"
  metaScanTime :: time
  metaScanRadius :: int
  metaPoliceStationId :: nat
  isValid :: bool

record database =
  users :: "User list"
  routes :: "Route list"
  checkpointTable :: "Checkpoint list"
  assignments :: "RouteAssignment list"
  scans :: "CheckpointScan list"

text \<open>
  What a handler takes from outside the database: the arithmetic of the runtime,
  \<^verbatim>\<open>new Date()\<close>, its \<^verbatim>\<open>toLocaleString()\<close>, and
  \<^verbatim>\<open>uploadFileToS3(file, userId, checkpointId)\<close>, which yields the stored URL or throws
  (\<open>None\<close>).
\<close>

type_synonym mediaFile = string

record env =
  math :: jsMath
  now :: time
  nowLocale :: string
  uploadFileToS3 :: "mediaFile \<Rightarrow> nat \<Rightarrow> nat \<Rightarrow> string option"

text \<open>
  The error responses of the handlers. In comments: the HTTP status and the
  \<^verbatim>\<open>message\<close> or \<^verbatim>\<open>error\<close> tag of the response.
\<close>

datatype latLongError = NotAString | BadFormat | NotNumeric | OutOfBounds

datatype error =
    RequiredFieldsMissing \<comment> \<open>400, a required body field is missing\<close>
  | InvalidAssignmentId \<comment> \<open>400 \<^verbatim>\<open>Invalid assignment ID\<close>\<close>
  | InvalidPosition latLongError \<comment> \<open>400 \<^verbatim>\<open>Invalid userLatLong\<close>\<close>
  | MalformedQRCode \<comment> \<open>400 \<^verbatim>\<open>Invalid QR code format\<close>, \<^verbatim>\<open>Invalid checkpoint QR code\<close>\<close>
  | CheckpointNotFound \<comment> \<open>404 \<^verbatim>\<open>Invalid or inactive checkpoint QR code\<close>\<close>
  | OutOfRange jsnum int \<comment> \<open>400, \<^verbatim>\<open>data.distance\<close> and \<^verbatim>\<open>data.requiredRadius\<close>\<close>
  | NoActiveAssignment \<comment> \<open>404 \<^verbatim>\<open>No active route assignment found\<close>\<close>
  | RouteNotFound \<comment> \<open>404 \<^verbatim>\<open>Route not found\<close>\<close>
  | CheckpointNotInRoute \<comment> \<open>400 \<^verbatim>\<open>This checkpoint is not part of your assigned route\<close>\<close>
  | AlreadyScanned \<comment> \<open>400 \<^verbatim>\<open>This checkpoint has already been scanned\<close>\<close>
  | MediaUploadFailed \<comment> \<open>500 \<^verbatim>\<open>Failed to upload media files\<close>\<close>
  | UserNotFound \<comment> \<open>404 \<^verbatim>\<open>User not found\<close>\<close>
  | RouteInactive \<comment> \<open>400 \<^verbatim>\<open>Route is not active\<close>\<close>
  | RouteAlreadyAssigned "(nat \<times> nat \<times> status) option"
      \<comment> \<open>409 \<^verbatim>\<open>ROUTE_ALREADY_ASSIGNED\<close>; from \<^verbatim>\<open>assignRoute\<close> with the conflicting
          assignment's id, holder and status\<close>
  | DuplicateUserRouteAssignment nat status \<comment> \<open>409 \<^verbatim>\<open>USER_ROUTE_DUPLICATE\<close>\<close>
  | MaxAssignmentsReached nat nat \<comment> \<open>400 \<^verbatim>\<open>MAX_ROUTES_REACHED\<close>, current and allowed\<close>
  | AssignmentNotFound \<comment> \<open>404 \<^verbatim>\<open>Assignment not found\<close>\<close>
  | InvalidStateTransition
      \<comment> \<open>404 \<^verbatim>\<open>Assignment not found or not in assigned status\<close> (\<^verbatim>\<open>startRoute\<close>),
          400 \<^verbatim>\<open>Cannot cancel assignment with status\<close> (\<^verbatim>\<open>cancelAssignment\<close>)\<close>
  | AlreadyCompleted \<comment> \<open>400 \<^verbatim>\<open>Assignment is already completed\<close>\<close>
  | IncompleteCheckpoints nat nat nat
      \<comment> \<open>400 \<^verbatim>\<open>INCOMPLETE_CHECKPOINTS\<close>: total, completed, remaining\<close>
  | CannotDeleteInProgress \<comment> \<open>400 \<^verbatim>\<open>Cannot delete assignment that is in progress\<close>\<close>
  | InternalError \<comment> \<open>500, an exception reached the handler's \<^verbatim>\<open>catch\<close>\<close>

subsection \<open>Queries and writes\<close>

definition User_findByPk :: "database \<Rightarrow> nat \<Rightarrow> User option" where
  "User_findByPk db k = find (\<lambda>u. userPk u = k) (users db)"

definition Route_findByPk :: "database \<Rightarrow> nat \<Rightarrow> Route option" where
  "Route_findByPk db k = find (\<lambda>r. routePk r = k) (routes db)"

definition RouteAssignment_findByPk :: "database \<Rightarrow> nat \<Rightarrow> RouteAssignment option" where
  "RouteAssignment_findByPk db k = find (\<lambda>a. assignmentPk a = k) (assignments db)"

text \<open>\<^verbatim>\<open>status: { [Op.in]: ['assigned', 'in_progress'] }\<close>.\<close>

definition activeStatus :: "status \<Rightarrow> bool" where
  "activeStatus s = (s = Assigned \<or> s = InProgress)"

text \<open>\<^verbatim>\<open>assignment.update(values)\<close>: the row with the instance's key is rewritten.\<close>

definition updateRow :: "nat \<Rightarrow> (RouteAssignment \<Rightarrow> RouteAssignment) \<Rightarrow> database \<Rightarrow> database" where
  "updateRow k f db =
     db\<lparr>assignments := map (\<lambda>a. if assignmentPk a = k then f a else a) (assignments db)\<rparr>"

text \<open>Auto-increment keys: one more than the largest key of the table.\<close>

definition nextAssignmentPk :: "database \<Rightarrow> nat" where
  "nextAssignmentPk db = Suc (foldr max (map assignmentPk (assignments db)) 0)"

definition nextScanPk :: "database \<Rightarrow> nat" where
  "nextScanPk db = Suc (foldr max (map scanPk (scans db)) 0)"

text \<open>
  \<^verbatim>\<open>CheckpointScan.create(values)\<close>. Sequelize validates the values against the model
  before it inserts: a column declared \<^verbatim>\<open>allowNull: false\<close> that has no value and no
  default makes \<^verbatim>\<open>create\<close> throw, and nothing is written (\<open>None\<close>). Of the columns
  of that kind, \<^verbatim>\<open>routeId\<close> is the one a caller can leave out here. Otherwise the row
  is stored under a fresh key.
\<close>

definition CheckpointScan_create ::
  "database \<Rightarrow> CheckpointScan \<Rightarrow> (CheckpointScan \<times> database) option" where
  "CheckpointScan_create db vals =
     (case scanRouteId vals of
        None \<Rightarrow> None
      | Some r \<Rightarrow>
          let row = vals\<lparr>scanPk := nextScanPk db\<rparr>
          in Some (row, db\<lparr>scans := scans db @ [row]\<rparr>))"

text \<open>\<^verbatim>\<open>x || d\<close> on an optional string: absent and empty strings are falsy.\<close>

definition orElse :: "string option \<Rightarrow> string \<Rightarrow> string" where
  "orElse x d = (case x of None \<Rightarrow> d | Some s \<Rightarrow> if s = [] then d else s)"

subsection \<open>The route-assignment controller\<close>

record assignRequest =
  ar_routeId :: nat
  ar_userId :: nat
  ar_policeStationId :: "nat option"

definition MAX_ROUTES_PER_USER :: nat where
  "MAX_ROUTES_PER_USER = 5"

text \<open>
  \<^verbatim>\<open>assignRoute\<close>, up to the last check: the input validation, the user and route
  lookups, RULE 1 (the route is assigned to any user), RULE 2 (the user has this
  route) and RULE 3 (the user's limit). \<open>None\<close> when every check passes.
\<close>

definition assignRouteChecks :: "database \<Rightarrow> assignRequest \<Rightarrow> error option" where
  "assignRouteChecks db req =
     (if ar_routeId req = 0 \<or> ar_userId req = 0 then Some RequiredFieldsMissing
      else case User_findByPk db (ar_userId req) of
        None \<Rightarrow> Some UserNotFound
      | Some user \<Rightarrow>
        (case Route_findByPk db (ar_routeId req) of
          None \<Rightarrow> Some RouteNotFound
        | Some route \<Rightarrow>
          if \<not> routeIsActive route then Some RouteInactive
          else case find (\<lambda>a. routeId a = ar_routeId req \<and> isActive a \<and> activeStatus (status a))
                      (assignments db) of
            Some existingRouteAssignment \<Rightarrow>
              (case User_findByPk db (userId existingRouteAssignment) of
                None \<Rightarrow> Some InternalError
              | Some assignedUser \<Rightarrow>
                  Some (RouteAlreadyAssigned (Some (assignmentPk existingRouteAssignment,
                    userPk assignedUser, status existingRouteAssignment))))
          | None \<Rightarrow>
            (case find (\<lambda>a. userId a = ar_userId req \<and> routeId a = ar_routeId req \<and>
                            isActive a \<and> activeStatus (status a)) (assignments db) of
              Some userRouteConflict \<Rightarrow>
                Some (DuplicateUserRouteAssignment (assignmentPk userRouteConflict)
                  (status userRouteConflict))
            | None \<Rightarrow>
              (let userActiveAssignments =
                     filter (\<lambda>a. userId a = ar_userId req \<and> isActive a \<and> activeStatus (status a))
                       (assignments db)
               in if MAX_ROUTES_PER_USER \<le> length userActiveAssignments
                  then Some (MaxAssignmentsReached (length userActiveAssignments) MAX_ROUTES_PER_USER)
                  else None))))"

text \<open>\<^verbatim>\<open>RouteAssignment.create({...})\<close> of \<^verbatim>\<open>assignRoute\<close>.\<close>

definition assignRouteCreate :: "env \<Rightarrow> database \<Rightarrow> assignRequest \<Rightarrow> RouteAssignment \<times> database" where
  "assignRouteCreate e db req =
     (let assignment =
            \<lparr>assignmentPk = nextAssignmentPk db,
             userId = ar_userId req,
             routeId = ar_routeId req,
             policeStationId = ar_policeStationId req,
             startDate = Some (now e),
             endDate = None,
             status = Assigned,
             completedCheckpoints = [],
             assignmentNotes = Some (''Route assigned at '' @ nowLocale e),
             isActive = True,
             createdAt = now e\<rparr>
      in (assignment, db\<lparr>assignments := assignments db @ [assignment]\<rparr>))"

text \<open>\<^verbatim>\<open>assignRoute\<close> run without interruption: the checks, then the create.\<close>

definition assignRoute :: "env \<Rightarrow> database \<Rightarrow> assignRequest \<Rightarrow> (error + RouteAssignment) \<times> database" where
  "assignRoute e db req =
     (case assignRouteChecks db req of
        Some err \<Rightarrow> (Inl err, db)
      | None \<Rightarrow> (case assignRouteCreate e db req of (assignment, db') \<Rightarrow> (Inr assignment, db')))"

text \<open>
  The body of an \<^verbatim>\<open>updateAssignment\<close> request: for each key, \<open>None\<close> when the body
  does not have it. The handler reads \<^verbatim>\<open>routeId\<close> and \<^verbatim>\<open>userId\<close> and copies the
  \<^verbatim>\<open>allowedFields\<close>; the other keys stand for anything else a body may carry.
\<close>

record updateData =
  ud_routeId :: "nat option"
  ud_userId :: "nat option"
  ud_policeStationId :: "nat option"
  ud_completedCheckpoints :: "nat list option"
  ud_isActive :: "bool option"
  ud_startDate :: "time option option"
  ud_endDate :: "time option option"
  ud_notes :: "string option option"
  ud_status :: "status option"

text \<open>Truthiness of an optional numeric body field.\<close>

definition truthy :: "nat option \<Rightarrow> bool" where
  "truthy x = (case x of None \<Rightarrow> False | Some n \<Rightarrow> n \<noteq> 0)"

text \<open>
  \<^verbatim>\<open>filteredData\<close> applied by \<^verbatim>\<open>assignment.update\<close>: the keys of \<^verbatim>\<open>allowedFields\<close>
  (\<^verbatim>\<open>startDate\<close>, \<^verbatim>\<open>endDate\<close>, \<^verbatim>\<open>notes\<close>, \<^verbatim>\<open>status\<close>) that the body has.
\<close>

definition applyFiltered :: "updateData \<Rightarrow> RouteAssignment \<Rightarrow> RouteAssignment" where
  "applyFiltered ud a =
     a\<lparr>startDate := (case ud_startDate ud of None \<Rightarrow> startDate a | Some v \<Rightarrow> v),
       endDate := (case ud_endDate ud of None \<Rightarrow> endDate a | Some v \<Rightarrow> v),
       assignmentNotes := (case ud_notes ud of None \<Rightarrow> assignmentNotes a | Some v \<Rightarrow> v),
       status := (case ud_status ud of None \<Rightarrow> status a | Some v \<Rightarrow> v)\<rparr>"

text \<open>
  \<^verbatim>\<open>updateAssignment\<close>. The \<^verbatim>\<open>id\<close> parameter is \<open>None\<close> when it is empty or not
  numeric.
\<close>

definition updateAssignment ::
  "database \<Rightarrow> nat option \<Rightarrow> updateData \<Rightarrow> (error + RouteAssignment) \<times> database" where
  "updateAssignment db ident ud =
     (case ident of
        None \<Rightarrow> (Inl InvalidAssignmentId, db)
      | Some k \<Rightarrow>
        (case RouteAssignment_findByPk db k of
          None \<Rightarrow> (Inl AssignmentNotFound, db)
        | Some assignment \<Rightarrow>
          if \<not> isActive assignment then (Inl AssignmentNotFound, db)
          else
            let newRouteId = (case ud_routeId ud of
                                None \<Rightarrow> routeId assignment
                              | Some n \<Rightarrow> if n = 0 then routeId assignment else n)
            in if (truthy (ud_routeId ud) \<or> truthy (ud_userId ud))
                  \<and> newRouteId \<noteq> routeId assignment
                  \<and> find (\<lambda>b. routeId b = newRouteId \<and> isActive b \<and> activeStatus (status b)
                               \<and> assignmentPk b \<noteq> k) (assignments db) \<noteq> None
               then (Inl (RouteAlreadyAssigned None), db)
               else (Inr (applyFiltered ud assignment), updateRow k (applyFiltered ud) db)))"

text \<open>\<^verbatim>\<open>startRoute\<close>.\<close>

definition startRoute ::
  "env \<Rightarrow> database \<Rightarrow> nat option \<Rightarrow> string option \<Rightarrow> (error + RouteAssignment) \<times> database" where
  "startRoute e db ident notesIn =
     (case ident of
        None \<Rightarrow> (Inl InvalidAssignmentId, db)
      | Some k \<Rightarrow>
        (case find (\<lambda>a. assignmentPk a = k \<and> isActive a \<and> status a = Assigned) (assignments db) of
          None \<Rightarrow> (Inl InvalidStateTransition, db)
        | Some assignment \<Rightarrow>
            let upd = (\<lambda>a. a\<lparr>status := InProgress,
                              startDate := Some (now e),
                              assignmentNotes := Some (orElse notesIn (''Route started at '' @ nowLocale e))\<rparr>)
            in (Inr (upd assignment), updateRow (assignmentPk assignment) upd db)))"

text \<open>\<^verbatim>\<open>completeRoute\<close>; \<^verbatim>\<open>route?.checkpoints?.length || 0\<close> is \<open>0\<close> for a missing route.\<close>

definition completeRoute ::
  "env \<Rightarrow> database \<Rightarrow> nat option \<Rightarrow> string option \<Rightarrow> bool \<Rightarrow> (error + RouteAssignment) \<times> database" where
  "completeRoute e db ident notesIn forceComplete =
     (case ident of
        None \<Rightarrow> (Inl InvalidAssignmentId, db)
      | Some k \<Rightarrow>
        (case find (\<lambda>a. assignmentPk a = k \<and> isActive a) (assignments db) of
          None \<Rightarrow> (Inl AssignmentNotFound, db)
        | Some assignment \<Rightarrow>
          if status assignment = Completed then (Inl AlreadyCompleted, db)
          else
            let totalCheckpoints =
                  (case Route_findByPk db (routeId assignment) of
                     None \<Rightarrow> 0 | Some route \<Rightarrow> length (checkpoints route));
                completedCount = length (completedCheckpoints assignment)
            in if completedCount < totalCheckpoints \<and> \<not> forceComplete
               then (Inl (IncompleteCheckpoints totalCheckpoints completedCount
                            (totalCheckpoints - completedCount)), db)
               else
                 let upd = (\<lambda>a. a\<lparr>status := Completed,
                                   endDate := Some (now e),
                                   assignmentNotes := Some (orElse notesIn
                                     (''Route completed at '' @ nowLocale e @
                                      (if forceComplete then '' (Force completed)'' else '''')))\<rparr>)
                 in (Inr (upd assignment), updateRow (assignmentPk assignment) upd db)))"

text \<open>\<^verbatim>\<open>cancelAssignment\<close>.\<close>

definition cancelAssignment ::
  "env \<Rightarrow> database \<Rightarrow> nat option \<Rightarrow> string option \<Rightarrow> string option
     \<Rightarrow> (error + RouteAssignment) \<times> database" where
  "cancelAssignment e db ident notesIn reason =
     (case ident of
        None \<Rightarrow> (Inl InvalidAssignmentId, db)
      | Some k \<Rightarrow>
        (case RouteAssignment_findByPk db k of
          None \<Rightarrow> (Inl AssignmentNotFound, db)
        | Some assignment \<Rightarrow>
          if \<not> isActive assignment then (Inl AssignmentNotFound, db)
          else if \<not> activeStatus (status assignment) then (Inl InvalidStateTransition, db)
          else
            let cancellationReason = orElse reason ''No reason provided'';
                cancellationNotes = orElse notesIn
                  (''Assignment cancelled at '' @ nowLocale e @ ''. Reason: '' @ cancellationReason);
                upd = (\<lambda>a. a\<lparr>status := Cancelled,
                              endDate := Some (now e),
                              assignmentNotes := Some cancellationNotes\<rparr>)
            in (Inr (upd assignment), updateRow (assignmentPk assignment) upd db)))"

subsection \<open>The scan handler of the checkpoint controller\<close>

text \<open>\<^verbatim>\<open>validateLatLong\<close>: two numeric parts within the coordinate bounds.\<close>

definition validateLatLong :: "latLong \<Rightarrow> latLongError + real \<times> real" where
  "validateLatLong latLong =
     (case latLong of
        LatLongMissing \<Rightarrow> Inl NotAString
      | LatLongNotString \<Rightarrow> Inl NotAString
      | LatLongParts parts \<Rightarrow>
        (case parts of
          [p0, p1] \<Rightarrow>
            (case p0 of
              None \<Rightarrow> Inl NotNumeric
            | Some lat \<Rightarrow>
              (case p1 of
                None \<Rightarrow> Inl NotNumeric
              | Some lng \<Rightarrow>
                  if lat < - 90 \<or> 90 < lat \<or> lng < - 180 \<or> 180 < lng then Inl OutOfBounds
                  else Inr (lat, lng)))
        | _ \<Rightarrow> Inl BadFormat))"

text \<open>
  The \<^verbatim>\<open>qrData\<close> field of a scan request after \<^verbatim>\<open>JSON.parse\<close>: missing or empty,
  not JSON, the JSON \<^verbatim>\<open>null\<close> (reading \<^verbatim>\<open>qrInfo.id\<close> then throws), or a value with
  its \<^verbatim>\<open>id\<close> and \<^verbatim>\<open>type\<close> members (the empty string when absent or falsy).
\<close>

datatype qrData = QrMissing | QrUnparseable | QrNull | QrObject string string

record scanRequest =
  req_qrData :: qrData
  req_userLatLong :: latLong
  req_assignmentId :: nat
  req_notes :: "string option"
  req_userId :: nat
  req_images :: "mediaFile list"
  req_videos :: "mediaFile list"
  req_audios :: "mediaFile list"

text \<open>\<^verbatim>\<open>checkpoint.scanRadius || 50\<close>: a null or zero radius falls back to 50.\<close>

definition effectiveRadius :: "Checkpoint \<Rightarrow> int" where
  "effectiveRadius checkpoint =
     (case scanRadius checkpoint of None \<Rightarrow> 50 | Some r \<Rightarrow> if r = 0 then 50 else r)"

text \<open>
  The first part of \<^verbatim>\<open>scanQRCode\<close>, down to the radius check: the required fields,
  the user position, the QR payload, the checkpoint lookup by QR code and the
  test \<^verbatim>\<open>distance <= scanRadius\<close>. It yields the checkpoint, the computed distance and
  the radius used. A distance computed as \<^verbatim>\<open>NaN\<close> fails the test.
\<close>

definition locateCheckpoint ::
  "env \<Rightarrow> database \<Rightarrow> scanRequest \<Rightarrow> error + Checkpoint \<times> jsnum \<times> int" where
  "locateCheckpoint e db req =
     (if req_userId req = 0 \<or> req_qrData req = QrMissing
         \<or> req_userLatLong req = LatLongMissing \<or> req_assignmentId req = 0
      then Inl RequiredFieldsMissing
      else case validateLatLong (req_userLatLong req) of
        Inl why \<Rightarrow> Inl (InvalidPosition why)
      | Inr (userLat, userLng) \<Rightarrow>
        (case req_qrData req of
          QrMissing \<Rightarrow> Inl RequiredFieldsMissing
        | QrUnparseable \<Rightarrow> Inl MalformedQRCode
        | QrNull \<Rightarrow> Inl InternalError
        | QrObject qrId qrType \<Rightarrow>
          if qrId = [] \<or> qrType = [] \<or> qrType \<noteq> ''checkpoint'' then Inl MalformedQRCode
          else case find (\<lambda>c. qrCode c = Some qrId \<and> checkpointIsActive c) (checkpointTable db) of
            None \<Rightarrow> Inl CheckpointNotFound
          | Some checkpoint \<Rightarrow>
              let d = distance (math e) userLat userLng (latitude checkpoint) (longitude checkpoint);
                  radius = effectiveRadius checkpoint;
                  isWithinRadius = js_le d (Num (real_of_int radius))
              in if \<not> isWithinRadius then Inl (OutOfRange (js_round d) radius)
                 else Inr (checkpoint, d, radius)))"

text \<open>\<^verbatim>\<open>Promise.all(files.map(file => uploadFileToS3(...)))\<close>: every URL, or a throw.\<close>

definition uploadAll :: "env \<Rightarrow> mediaFile list \<Rightarrow> nat \<Rightarrow> nat \<Rightarrow> string list option" where
  "uploadAll e fs uid cid = those (map (\<lambda>f. uploadFileToS3 e f uid cid) fs)"

definition uploadMedia ::
  "env \<Rightarrow> scanRequest \<Rightarrow> nat \<Rightarrow> (string list \<times> string list \<times> string list) option" where
  "uploadMedia e req cid =
     (case uploadAll e (req_images req) (req_userId req) cid of
        None \<Rightarrow> None
      | Some imgs \<Rightarrow>
        (case uploadAll e (req_videos req) (req_userId req) cid of
          None \<Rightarrow> None
        | Some vids \<Rightarrow>
          (case uploadAll e (req_audios req) (req_userId req) cid of
            None \<Rightarrow> None
          | Some auds \<Rightarrow> Some (imgs, vids, auds))))"

text \<open>The \<^verbatim>\<open>data\<close> of a successful scan response that depends on the state.\<close>

record scanResponse =
  resp_scanId :: nat
  resp_checkpointId :: nat
  resp_distance :: jsnum
  resp_scanRadius :: int
  resp_status :: status
  resp_totalCheckpoints :: nat
  resp_completedCheckpoints :: nat
  resp_percentage :: jsnum
  resp_isCompleted :: bool
  resp_remainingCheckpoints :: "nat list"

text \<open>\<^verbatim>\<open>Math.round((completed / total) * 100)\<close>.\<close>

definition percentage :: "jsMath \<Rightarrow> nat \<Rightarrow> nat \<Rightarrow> jsnum" where
  "percentage m completedCount totalCheckpoints =
     js_round (num_mul m (num_div m (Num (real completedCount)) (Num (real totalCheckpoints)))
                 (Num 100))"

text \<open>
  The \<^verbatim>\<open>updateData\<close> that \<^verbatim>\<open>scanQRCode\<close> writes to the assignment: the new list of
  completed checkpoints, the status, and on completion the end date and the notes.
\<close>

definition scanUpdate :: "env \<Rightarrow> nat list \<Rightarrow> bool \<Rightarrow> RouteAssignment \<Rightarrow> RouteAssignment" where
  "scanUpdate e newCompletedCheckpoints isRouteCompleted a =
     (if isRouteCompleted
      then a\<lparr>completedCheckpoints := newCompletedCheckpoints,
             status := Completed,
             endDate := Some (now e),
             assignmentNotes := Some (''Route completed at '' @ nowLocale e)\<rparr>
      else a\<lparr>completedCheckpoints := newCompletedCheckpoints,
             status := InProgress\<rparr>)"

text \<open>
  \<^verbatim>\<open>scanQRCode\<close>. The writes come last: \<^verbatim>\<open>CheckpointScan.create\<close> with the fields the
  handler passes, then \<^verbatim>\<open>assignment.update\<close>. The handler passes no \<^verbatim>\<open>routeId\<close> to
  \<^verbatim>\<open>create\<close>; the exception that \<^verbatim>\<open>create\<close> then throws reaches the handler's \<^verbatim>\<open>catch\<close>,
  which answers 500. The other variant of the handler in the repository differs in
  two places: it requires a \<^verbatim>\<open>routeId\<close> in the body, which it passes to \<^verbatim>\<open>create\<close>, and
  its fallback radius is 100.
\<close>

definition scanQRCode :: "env \<Rightarrow> database \<Rightarrow> scanRequest \<Rightarrow> (error + scanResponse) \<times> database" where
  "scanQRCode e db req =
     (case locateCheckpoint e db req of
        Inl err \<Rightarrow> (Inl err, db)
      | Inr (checkpoint, d, radius) \<Rightarrow>
        (case find (\<lambda>a. assignmentPk a = req_assignmentId req \<and> userId a = req_userId req
                        \<and> isActive a \<and> status a = InProgress) (assignments db) of
          None \<Rightarrow> (Inl NoActiveAssignment, db)
        | Some assignment \<Rightarrow>
          (case Route_findByPk db (routeId assignment) of
            None \<Rightarrow> (Inl RouteNotFound, db)
          | Some route \<Rightarrow>
            if checkpointPk checkpoint \<notin> set (checkpoints route)
            then (Inl CheckpointNotInRoute, db)
            else if checkpointPk checkpoint \<in> set (completedCheckpoints assignment)
            then (Inl AlreadyScanned, db)
            else case uploadMedia e req (checkpointPk checkpoint) of
              None \<Rightarrow> (Inl MediaUploadFailed, db)
            | Some (uploadedImages, uploadedVideos, uploadedAudios) \<Rightarrow>
              (case CheckpointScan_create db
                      \<lparr>scanPk = 0,
                       scanUserId = req_userId req,
                       scanCheckpointId = checkpointPk checkpoint,
                       scanRouteId = None,
                       routeAssignmentId = req_assignmentId req,
                       scanUserLatLong = req_userLatLong req,
                       scanDistance = js_round d,
                       scanNotes = (case req_notes req of
                                      None \<Rightarrow> None
                                    | Some s \<Rightarrow> if s = [] then None else Some s),
                       images = uploadedImages,
                       videos = uploadedVideos,
                       audios = uploadedAudios,
                       metaScanTime = now e,
                       metaScanRadius = radius,
                       metaPoliceStationId = checkpointStation checkpoint,
                       isValid = True\<rparr> of
                None \<Rightarrow> (Inl InternalError, db)
              | Some (checkpointScan, db1) \<Rightarrow>
                  let newCompletedCheckpoints =
                        completedCheckpoints assignment @ [checkpointPk checkpoint];
                      totalCheckpoints = length (checkpoints route);
                      isRouteCompleted = (length newCompletedCheckpoints = totalCheckpoints);
                      db' = updateRow (assignmentPk assignment)
                              (scanUpdate e newCompletedCheckpoints isRouteCompleted) db1
                  in (Inr \<lparr>resp_scanId = scanPk checkpointScan,
                            resp_checkpointId = checkpointPk checkpoint,
                            resp_distance = js_round d,
                            resp_scanRadius = radius,
                            resp_status = (if isRouteCompleted then Completed else InProgress),
                            resp_totalCheckpoints = totalCheckpoints,
                            resp_completedCheckpoints = length newCompletedCheckpoints,
                            resp_percentage =
                              percentage (math e) (length newCompletedCheckpoints)
                                totalCheckpoints,
                            resp_isCompleted = isRouteCompleted,
                            resp_remainingCheckpoints =
                              filter (\<lambda>i. i \<notin> set newCompletedCheckpoints)
                                (checkpoints route)\<rparr>,
                      db')))))"

subsection \<open>Interleaved requests\<close>

text \<open>
  A handler is an \<^verbatim>\<open>async\<close> function: at each \<^verbatim>\<open>await\<close> the event loop may run
  another request's handler. \<^verbatim>\<open>assignRoute\<close> awaits every query and the final
  \<^verbatim>\<open>create\<close>; no transaction spans them and the model has no unique index on the
  route. A request in flight is therefore in one of three states: its checks are
  still to run, its checks have passed and its \<^verbatim>\<open>create\<close> is still to run, or it
  has answered. Other requests may run between the two steps.
\<close>

datatype task = Checking assignRequest | Creating assignRequest | Finished "error + RouteAssignment"

definition stepTask :: "env \<Rightarrow> database \<Rightarrow> task \<Rightarrow> database \<times> task" where
  "stepTask e db t =
     (case t of
        Checking req \<Rightarrow>
          (case assignRouteChecks db req of
             Some err \<Rightarrow> (db, Finished (Inl err))
           | None \<Rightarrow> (db, Creating req))
      | Creating req \<Rightarrow>
          (case assignRouteCreate e db req of (assignment, db') \<Rightarrow> (db', Finished (Inr assignment)))
      | Finished r \<Rightarrow> (db, Finished r))"

text \<open>
  A schedule names, step by step, which request runs next; a step of a request that
  is not there does nothing.
\<close>

fun runSchedule :: "env \<Rightarrow> nat list \<Rightarrow> database \<times> task list \<Rightarrow> database \<times> task list" where
  "runSchedule e [] st = st"
| "runSchedule e (i # sched) (db, ts) =
     (if i < length ts
      then (case stepTask e db (ts ! i) of (db', t') \<Rightarrow> runSchedule e sched (db', ts[i := t']))
      else runSchedule e sched (db, ts))"

text \<open>The active assignments that hold a route.\<close>

definition activeOnRoute :: "database \<Rightarrow> nat \<Rightarrow> RouteAssignment list" where
  "activeOnRoute db r =
     filter (\<lambda>a. routeId a = r \<and> isActive a \<and> activeStatus (status a)) (assignments db)"

subsection \<open>Well-formed tables and observations\<close>

text \<open>The primary-key constraint of the assignment table: no two rows share an id.\<close>

definition uniquePks :: "database \<Rightarrow> bool" where
  "uniquePks db = distinct (map assignmentPk (assignments db))"

text \<open>The status of the assignment with a given id, if there is one.\<close>

definition statusOf :: "database \<Rightarrow> nat \<Rightarrow> status option" where
  "statusOf db k = map_option status (RouteAssignment_findByPk db k)"

subsection \<open>Sample data\<close>

text \<open>
  Rows and requests for running the handlers on concrete inputs: two users, the route
  \<open>[1, 2, 3]\<close>, and its three checkpoints on the prime meridian at latitudes 0, 1 and
  2, with scan radius 100, 0 and 1. Assignment 1 gives route 1 to user 1; its status
  and completed checkpoints vary. The sample runs compute without rounding.
\<close>

definition demoEnv :: env where
  "demoEnv = \<lparr>math = exactMath, now = 1000, nowLocale = ''1/1/2025, 10:00:00 AM'',
              uploadFileToS3 = (\<lambda>f u c. Some (''https://bucket.s3/'' @ f))\<rparr>"

definition demoAssignment :: "status \<Rightarrow> nat list \<Rightarrow> RouteAssignment" where
  "demoAssignment st done =
     \<lparr>assignmentPk = 1, userId = 1, routeId = 1, policeStationId = Some 1,
      startDate = Some 500, endDate = None, status = st, completedCheckpoints = done,
      assignmentNotes = None, isActive = True, createdAt = 500\<rparr>"

definition demoRoute :: Route where
  "demoRoute = \<lparr>routePk = 1, routeName = ''Perimeter'', checkpoints = [1, 2, 3],
                routeIsActive = True\<rparr>"

definition demoCheckpoint :: "nat \<Rightarrow> string \<Rightarrow> real \<Rightarrow> int option \<Rightarrow> Checkpoint" where
  "demoCheckpoint k qr lat r =
     \<lparr>checkpointPk = k, checkpointName = qr, latitude = lat, longitude = 0, scanRadius = r,
      qrCode = Some qr, checkpointIsActive = True, checkpointStation = 1\<rparr>"

definition demoDb :: "RouteAssignment list \<Rightarrow> database" where
  "demoDb rows =
     \<lparr>users = [\<lparr>userPk = 1, username = ''asha''\<rparr>, \<lparr>userPk = 2, username = ''ravi''\<rparr>],
      routes = [demoRoute],
      checkpointTable = [demoCheckpoint 1 ''CP_A'' 0 (Some 100),
                         demoCheckpoint 2 ''CP_B'' 1 (Some 0),
                         demoCheckpoint 3 ''CP_C'' 2 (Some 1)],
      assignments = rows,
      scans = []\<rparr>"

text \<open>
  An update body that supplies every key: the route the assignment already has, another
  user, station, completed list and active flag, and a new end date, notes and status.
\<close>

definition demoUpdate :: updateData where
  "demoUpdate =
     \<lparr>ud_routeId = Some 1, ud_userId = Some 2, ud_policeStationId = Some 9,
      ud_completedCheckpoints = Some [1, 2, 3], ud_isActive = Some False,
      ud_startDate = None, ud_endDate = Some (Some 2000),
      ud_notes = Some (Some ''handover''), ud_status = Some Assigned\<rparr>"

text \<open>A request to assign route 1 to the given user.\<close>

definition demoAssignRequest :: "nat \<Rightarrow> assignRequest" where
  "demoAssignRequest u = \<lparr>ar_routeId = 1, ar_userId = u, ar_policeStationId = Some 1\<rparr>"

text \<open>
  A scan by user 1 for assignment 1: the QR code of a checkpoint, read at the given
  latitude on the prime meridian, with one image attached.
\<close>

definition demoScan :: "string \<Rightarrow> real \<Rightarrow> scanRequest" where
  "demoScan qr lat =
     \<lparr>req_qrData = QrObject qr ''checkpoint'',
      req_userLatLong = LatLongParts [Some lat, Some 0],
      req_assignmentId = 1, req_notes = None, req_userId = 1,
      req_images = [''gate.jpg''], req_videos = [], req_audios = []\<rparr>"

lemmas demo_defs = demoEnv_def demoAssignment_def demoRoute_def demoCheckpoint_def demoDb_def

subsection \<open>Facts about the distance\<close>

text \<open>
  First the formula over the reals: its term \<^verbatim>\<open>a\<close> lies in \<open>[0, 1]\<close>, and the distance is
  never negative, zero from a point to itself and symmetric. These are facts about
  the formula, not about its evaluation in doubles, where rounding can take \<^verbatim>\<open>a\<close>
  above 1.
\<close>

lemma realAtan2_nonneg: "0 \<le> y \<Longrightarrow> 0 \<le> realAtan2 y x"
proof -
  assume y: "0 \<le> y"
  have "- (pi / 2) < arctan (y / x)" by (rule arctan_lbound)
  then have "0 \<le> arctan (y / x) + pi" using pi_gt_zero by linarith
  moreover have "0 < x \<Longrightarrow> 0 \<le> arctan (y / x)" using y by simp
  ultimately show ?thesis using y by (simp add: realAtan2_def)
qed

lemma realHaversineA_sym:
  "realHaversineA lat1 lng1 lat2 lng2 = realHaversineA lat2 lng2 lat1 lng1"
proof -
  have s: "sin (- t) * sin (- t) = sin t * sin t" for t :: real by simp
  have d1: "(lat1 - lat2) * pi / 180 / 2 = - ((lat2 - lat1) * pi / 180 / 2)"
    by (simp add: field_simps)
  have d2: "(lng1 - lng2) * pi / 180 / 2 = - ((lng2 - lng1) * pi / 180 / 2)"
    by (simp add: field_simps)
  show ?thesis
    unfolding realHaversineA_def Let_def d1 d2
    by (simp only: s mult.assoc) (simp add: mult.commute mult.left_commute)
qed

lemma realHaversineA_self: "realHaversineA lat lng lat lng = 0"
  by (simp add: realHaversineA_def)

lemma sin_half_sq: "sin (t / 2) * sin (t / 2) = (1 - cos t) / 2" for t :: real
proof -
  have "cos t = cos (2 * (t / 2))" by simp
  also have "\<dots> = 1 - 2 * (sin (t / 2))\<^sup>2" by (rule cos_double_sin)
  finally show ?thesis by (simp add: power2_eq_square)
qed

lemma half_unit_interval:
  fixes c :: real
  assumes "- 1 \<le> c" and "c \<le> 1"
  shows "0 \<le> (1 - c) / 2" and "(1 - c) / 2 \<le> 1" and "0 \<le> (1 + c) / 2" and "(1 + c) / 2 \<le> 1"
  using assms by simp_all

lemma realHaversineA_range:
  "0 \<le> realHaversineA lat1 lng1 lat2 lng2 \<and> realHaversineA lat1 lng1 lat2 lng2 \<le> 1"
proof -
  define p1 where "p1 = lat1 * pi / 180"
  define p2 where "p2 = lat2 * pi / 180"
  define dl where "dl = (lng2 - lng1) * pi / 180"
  define h where "h = sin (dl / 2) * sin (dl / 2)"
  define u where "u = (1 - cos (p2 - p1)) / 2"
  define v where "v = (1 + cos (p2 + p1)) / 2"
  have dphi: "(lat2 - lat1) * pi / 180 = p2 - p1"
    by (simp add: p1_def p2_def field_simps)
  have h0: "0 \<le> h" by (simp add: h_def)
  have h1: "h \<le> 1"
    unfolding h_def sin_half_sq by (rule half_unit_interval [OF cos_ge_minus_one cos_le_one])
  have u0: "0 \<le> u" and u1: "u \<le> 1"
    unfolding u_def by (rule half_unit_interval [OF cos_ge_minus_one cos_le_one])+
  have v0: "0 \<le> v" and v1: "v \<le> 1"
    unfolding v_def by (rule half_unit_interval [OF cos_ge_minus_one cos_le_one])+
  have cc: "cos p1 * cos p2 = v - u"
    unfolding u_def v_def by (simp add: cos_add cos_diff field_simps)
  have a: "realHaversineA lat1 lng1 lat2 lng2 = u + (v - u) * h"
    unfolding realHaversineA_def Let_def dphi sin_half_sq
    by (simp add: u_def [symmetric] p1_def [symmetric] p2_def [symmetric] dl_def [symmetric]
        h_def cc [symmetric] mult.assoc sin_half_sq)
  have mix: "u + (v - u) * h = (1 - h) * u + h * v" by (simp add: algebra_simps)
  have lo: "0 \<le> (1 - h) * u + h * v" using h0 h1 u0 v0 by simp
  have "(1 - h) * u \<le> (1 - h) * 1" using h1 u1 by (intro mult_left_mono) simp_all
  moreover have "h * v \<le> h * 1" using h0 v1 by (intro mult_left_mono) simp_all
  ultimately have hi: "(1 - h) * u + h * v \<le> 1" by simp
  show ?thesis using a mix lo hi by simp
qed

lemma realDistance_nonneg: "0 \<le> realDistance lat1 lng1 lat2 lng2"
proof -
  have "0 \<le> realAtan2 (sqrt (realHaversineA lat1 lng1 lat2 lng2))
                (sqrt (1 - realHaversineA lat1 lng1 lat2 lng2))"
    using realHaversineA_range [of lat1 lng1 lat2 lng2] by (intro realAtan2_nonneg) simp
  then show ?thesis by (simp add: realDistance_def earthRadius_def Let_def)
qed

lemma realDistance_self: "realDistance lat lng lat lng = 0"
  by (simp add: realDistance_def realHaversineA_self realAtan2_def Let_def)

lemma realDistance_sym:
  "realDistance lat1 lng1 lat2 lng2 = realDistance lat2 lng2 lat1 lng1"
  by (simp add: realDistance_def realHaversineA_sym [of lat1 lng1 lat2 lng2])

text \<open>
  Along a meridian the distance is the arc length: two points of the same longitude
  whose latitudes differ by \<open>t\<close> degrees, \<open>0 \<le> t \<le> 90\<close>, are \<open>R \<cdot> t \<cdot> \<pi> / 180\<close>
  metres apart.
\<close>

lemma realDistance_meridian:
  assumes "lat1 \<le> lat2" and "lat2 - lat1 \<le> 90"
  shows "realDistance lat1 lng lat2 lng = earthRadius * ((lat2 - lat1) * pi / 180)"
proof -
  define x where "x = (lat2 - lat1) * pi / 180 / 2"
  have x0: "0 \<le> x" using assms by (simp add: x_def)
  have "(lat2 - lat1) * pi \<le> 90 * pi" using assms by simp
  then have x1: "x \<le> pi / 4" by (simp add: x_def)
  have x2: "x < pi / 2" using x1 pi_gt_zero by linarith
  have cpos: "0 < cos x" using x0 x2 by (intro cos_gt_zero_pi) linarith+
  have spos: "0 \<le> sin x" using x0 x2 pi_gt_zero by (intro sin_ge_zero) linarith+
  have a: "realHaversineA lat1 lng lat2 lng = (sin x)\<^sup>2"
    by (simp add: realHaversineA_def x_def power2_eq_square)
  have s1: "sqrt ((sin x)\<^sup>2) = sin x" using spos by simp
  have "1 - (sin x)\<^sup>2 = (cos x)\<^sup>2" by (simp add: cos_squared_eq)
  then have s2: "sqrt (1 - (sin x)\<^sup>2) = cos x" using cpos by simp
  have "realAtan2 (sin x) (cos x) = arctan (tan x)"
    using cpos by (simp add: realAtan2_def tan_def)
  also have "\<dots> = x" using x0 x2 pi_gt_zero by (intro arctan_tan) linarith+
  finally have at: "realAtan2 (sin x) (cos x) = x" .
  have "realDistance lat1 lng lat2 lng = earthRadius * (2 * realAtan2 (sin x) (cos x))"
    unfolding realDistance_def Let_def a s1 s2 ..
  also have "\<dots> = earthRadius * (2 * x)" by (simp only: at)
  also have "2 * x = (lat2 - lat1) * pi / 180" by (simp add: x_def)
  finally show ?thesis .
qed

text \<open>
  With every operation exact, the handler's computation yields the real Haversine
  distance, and never \<^verbatim>\<open>NaN\<close>.
\<close>

lemma haversineA_exactMath:
  "haversineA exactMath lat1 lng1 lat2 lng2 = Num (realHaversineA lat1 lng1 lat2 lng2)"
  by (simp add: haversineA_def realHaversineA_def exactMath_def exact1_def exact2_def
      exactDiv_def Let_def)

lemma distance_exactMath:
  "distance exactMath lat1 lng1 lat2 lng2 = Num (realDistance lat1 lng1 lat2 lng2)"
proof -
  have r: "\<not> realHaversineA lat1 lng1 lat2 lng2 < 0"
    "\<not> 1 - realHaversineA lat1 lng1 lat2 lng2 < 0"
    using realHaversineA_range [of lat1 lng1 lat2 lng2] by simp_all
  have m: "num_mul exactMath = exact2 (*)" "num_sub exactMath = exact2 (-)"
    "Math_sqrt exactMath = exactSqrt" "Math_atan2 exactMath = exact2 realAtan2"
    by (simp_all add: exactMath_def)
  show ?thesis
    unfolding distance_def realDistance_def Let_def haversineA_exactMath m
    using r by (simp add: exact2_def exactSqrt_def earthRadius_def)
qed

lemma pi_ge_three: "3 \<le> pi"
proof -
  have "sin (pi / 6) \<le> pi / 6" by (rule sin_x_le_x) simp
  then show ?thesis by (simp add: sin_30)
qed

subsection \<open>Lookups after a write\<close>

lemma find_pk_map:
  assumes "\<And>a. assignmentPk (f a) = assignmentPk a"
  shows "find (\<lambda>a. assignmentPk a = j) (map (\<lambda>a. if assignmentPk a = k then f a else a) xs)
         = (if j = k then map_option f (find (\<lambda>a. assignmentPk a = k) xs)
            else find (\<lambda>a. assignmentPk a = j) xs)"
  using assms by (induction xs) auto

lemma findByPk_updateRow:
  assumes "\<And>a. assignmentPk (f a) = assignmentPk a"
  shows "RouteAssignment_findByPk (updateRow k f db) j
         = (if j = k then map_option f (RouteAssignment_findByPk db k)
            else RouteAssignment_findByPk db j)"
  unfolding RouteAssignment_findByPk_def updateRow_def
  using find_pk_map [of f j k "assignments db", OF assms] by simp

lemma find_refine_unique:
  assumes "distinct (map assignmentPk xs)"
    and "find (\<lambda>a. assignmentPk a = k) xs = Some a"
  shows "find (\<lambda>a. assignmentPk a = k \<and> P a) xs = (if P a then Some a else None)"
  using assms
proof (induction xs)
  case Nil
  then show ?case by simp
next
  case (Cons x xs)
  show ?case
  proof (cases "assignmentPk x = k")
    case True
    then have xa: "x = a" using Cons.prems(2) by simp
    have "\<forall>y \<in> set xs. assignmentPk y \<noteq> k" using Cons.prems(1) True by (force simp: image_iff)
    then have "find (\<lambda>a. assignmentPk a = k \<and> P a) xs = None"
      by (auto simp add: find_None_iff)
    then show ?thesis using True xa by simp
  next
    case False
    then show ?thesis using Cons by simp
  qed
qed

lemma findOne_unique:
  assumes "uniquePks db" and "RouteAssignment_findByPk db k = Some a"
  shows "find (\<lambda>a. assignmentPk a = k \<and> P a) (assignments db) = (if P a then Some a else None)"
  using assms find_refine_unique [of "assignments db" k a P]
  by (simp add: uniquePks_def RouteAssignment_findByPk_def)

lemma findByPk_pk: "RouteAssignment_findByPk db k = Some a \<Longrightarrow> assignmentPk a = k"
  by (auto simp: RouteAssignment_findByPk_def find_Some_iff)

subsection \<open>Claim C7\<close>

text \<open>
  C7. \<^verbatim>\<open>startRoute\<close> succeeds only on an assignment whose status is exactly
  \<open>Assigned\<close>: on an active assigned one it moves the status to \<open>InProgress\<close> and sets
  \<open>startDate\<close> to the current time, whatever start date was recorded at assignment
  time; on an assignment in any other status it fails with \<open>InvalidStateTransition\<close>
  and writes nothing.
\<close>

theorem C7_startRoute:
  assumes "uniquePks db" and "RouteAssignment_findByPk db k = Some a"
  shows "(isActive a \<and> status a = Assigned \<longrightarrow>
           (\<exists>a' db'. startRoute e db (Some k) notesIn = (Inr a', db')
              \<and> RouteAssignment_findByPk db' k = Some a'
              \<and> status a' = InProgress \<and> startDate a' = Some (now e)))
       \<and> (status a \<noteq> Assigned \<longrightarrow>
           startRoute e db (Some k) notesIn = (Inl InvalidStateTransition, db))"
proof -
  have pk: "assignmentPk a = k" using assms(2) by (rule findByPk_pk)
  have f: "find (\<lambda>a. assignmentPk a = k \<and> isActive a \<and> status a = Assigned) (assignments db)
           = (if isActive a \<and> status a = Assigned then Some a else None)"
    using findOne_unique [OF assms, of "\<lambda>a. isActive a \<and> status a = Assigned"] by simp
  show ?thesis
    by (simp add: startRoute_def f Let_def pk findByPk_updateRow assms(2))
qed

theorem C7_startRoute_witness:
  "(\<exists>a' db'. startRoute demoEnv (demoDb [demoAssignment Assigned []]) (Some 1) None = (Inr a', db')
      \<and> RouteAssignment_findByPk db' 1 = Some a'
      \<and> status a' = InProgress \<and> startDate a' = Some 1000)
   \<and> startRoute demoEnv (demoDb [demoAssignment InProgress []]) (Some 1) None
       = (Inl InvalidStateTransition, demoDb [demoAssignment InProgress []])"
proof -
  have u: "uniquePks (demoDb [demoAssignment st []])" for st
    by (simp add: uniquePks_def demo_defs)
  have f: "RouteAssignment_findByPk (demoDb [demoAssignment st []]) 1 = Some (demoAssignment st [])" for st
    by (simp add: RouteAssignment_findByPk_def demo_defs)
  show ?thesis
    using C7_startRoute [OF u f, of Assigned demoEnv None] C7_startRoute [OF u f, of InProgress demoEnv None]
    by (simp add: demoAssignment_def demoEnv_def)
qed

subsection \<open>Claim C6\<close>

text \<open>
  C6. \<^verbatim>\<open>completeRoute\<close> on an active assignment: it fails with \<open>AlreadyCompleted\<close>
  when the status is already \<open>Completed\<close>; when fewer checkpoints are completed than
  the route has and \<^verbatim>\<open>forceComplete\<close> is false it fails with \<open>IncompleteCheckpoints\<close>,
  reporting the remaining count; otherwise it moves the assignment to \<open>Completed\<close>
  and sets \<open>endDate\<close> to the current time.
\<close>

theorem C6_completeRoute:
  assumes "uniquePks db" and "RouteAssignment_findByPk db k = Some a" and "isActive a"
    and "Route_findByPk db (routeId a) = Some r"
  shows "(status a = Completed \<longrightarrow>
            completeRoute e db (Some k) notesIn force = (Inl AlreadyCompleted, db))
       \<and> (status a \<noteq> Completed \<and> length (completedCheckpoints a) < length (checkpoints r) \<and> \<not> force \<longrightarrow>
            completeRoute e db (Some k) notesIn force =
              (Inl (IncompleteCheckpoints (length (checkpoints r)) (length (completedCheckpoints a))
                     (length (checkpoints r) - length (completedCheckpoints a))), db))
       \<and> (status a \<noteq> Completed \<and> (length (checkpoints r) \<le> length (completedCheckpoints a) \<or> force) \<longrightarrow>
            (\<exists>a' db'. completeRoute e db (Some k) notesIn force = (Inr a', db')
               \<and> RouteAssignment_findByPk db' k = Some a'
               \<and> status a' = Completed \<and> endDate a' = Some (now e)))"
proof -
  have pk: "assignmentPk a = k" using assms(2) by (rule findByPk_pk)
  have f: "find (\<lambda>a. assignmentPk a = k \<and> isActive a) (assignments db) = Some a"
    using findOne_unique [OF assms(1,2), of isActive] assms(3) by simp
  show ?thesis
    by (auto simp add: completeRoute_def f Let_def pk findByPk_updateRow assms(2,4))
qed

theorem C6_completeRoute_witness:
  "completeRoute demoEnv (demoDb [demoAssignment Completed [1, 2, 3]]) (Some 1) None False
     = (Inl AlreadyCompleted, demoDb [demoAssignment Completed [1, 2, 3]])
   \<and> completeRoute demoEnv (demoDb [demoAssignment InProgress [1, 2]]) (Some 1) None False
     = (Inl (IncompleteCheckpoints 3 2 1), demoDb [demoAssignment InProgress [1, 2]])
   \<and> (\<exists>a' db'. completeRoute demoEnv (demoDb [demoAssignment InProgress [1, 2]]) (Some 1) None True
          = (Inr a', db')
        \<and> RouteAssignment_findByPk db' 1 = Some a'
        \<and> status a' = Completed \<and> endDate a' = Some 1000)"
proof -
  have u: "uniquePks (demoDb [demoAssignment st cs])" for st cs
    by (simp add: uniquePks_def demo_defs)
  have f: "RouteAssignment_findByPk (demoDb [demoAssignment st cs]) 1 = Some (demoAssignment st cs)" for st cs
    by (simp add: RouteAssignment_findByPk_def demo_defs)
  have a: "isActive (demoAssignment st cs)" for st cs by (simp add: demoAssignment_def)
  have r: "Route_findByPk (demoDb [demoAssignment st cs]) (routeId (demoAssignment st cs)) = Some demoRoute" for st cs
    by (simp add: Route_findByPk_def demo_defs)
  show ?thesis
    using C6_completeRoute [OF u f a r, of Completed "[1, 2, 3]" demoEnv None False]
      C6_completeRoute [OF u f a r, of InProgress "[1, 2]" demoEnv None False]
      C6_completeRoute [OF u f a r, of InProgress "[1, 2]" demoEnv None True]
    by (simp add: demoAssignment_def demoEnv_def demoRoute_def)
qed

subsection \<open>Claim C10\<close>

lemma applyFiltered_frame:
  "assignmentPk (applyFiltered ud a) = assignmentPk a"
  "userId (applyFiltered ud a) = userId a"
  "routeId (applyFiltered ud a) = routeId a"
  "policeStationId (applyFiltered ud a) = policeStationId a"
  "completedCheckpoints (applyFiltered ud a) = completedCheckpoints a"
  "isActive (applyFiltered ud a) = isActive a"
  "createdAt (applyFiltered ud a) = createdAt a"
  by (simp_all add: applyFiltered_def)

text \<open>
  C10. For an existing active assignment and any update body, \<^verbatim>\<open>updateAssignment\<close>
  writes at most \<open>startDate\<close>, \<open>endDate\<close>, \<open>notes\<close> and \<open>status\<close>: the row's
  \<open>userId\<close>, \<open>routeId\<close>, \<open>policeStationId\<close>, \<open>completedCheckpoints\<close> and
  \<open>isActive\<close> are unchanged, whatever the body supplies for them, and no other
  row changes.
\<close>

theorem C10_updateAssignment_frame:
  assumes "RouteAssignment_findByPk db k = Some a" and "isActive a"
    and "updateAssignment db (Some k) ud = (res, db')"
  shows "\<exists>a'. RouteAssignment_findByPk db' k = Some a'
           \<and> userId a' = userId a \<and> routeId a' = routeId a
           \<and> policeStationId a' = policeStationId a
           \<and> completedCheckpoints a' = completedCheckpoints a
           \<and> isActive a' = isActive a
           \<and> a' = a\<lparr>startDate := startDate a', endDate := endDate a',
                     assignmentNotes := assignmentNotes a', status := status a'\<rparr>
           \<and> (a' = a \<or> a' = applyFiltered ud a)
           \<and> (\<forall>j. j \<noteq> k \<longrightarrow> RouteAssignment_findByPk db' j = RouteAssignment_findByPk db j)"
proof -
  have "db' = db \<or> db' = updateRow k (applyFiltered ud) db"
    using assms by (auto simp: updateAssignment_def Let_def split: if_splits)
  then show ?thesis
  proof
    assume "db' = db"
    then show ?thesis using assms(1) by simp
  next
    assume d: "db' = updateRow k (applyFiltered ud) db"
    have "applyFiltered ud a = a\<lparr>startDate := startDate (applyFiltered ud a),
        endDate := endDate (applyFiltered ud a),
        assignmentNotes := assignmentNotes (applyFiltered ud a),
        status := status (applyFiltered ud a)\<rparr>"
      by (simp add: applyFiltered_def)
    then show ?thesis
      using assms(1) by (simp add: d findByPk_updateRow applyFiltered_frame)
  qed
qed


theorem C10_updateAssignment_frame_witness:
  "\<exists>a'. RouteAssignment_findByPk
           (snd (updateAssignment (demoDb [demoAssignment Completed [1, 2]]) (Some 1) demoUpdate)) 1 = Some a'
     \<and> userId a' = 1 \<and> routeId a' = 1 \<and> policeStationId a' = Some 1
     \<and> completedCheckpoints a' = [1, 2] \<and> isActive a'"
proof -
  have f: "RouteAssignment_findByPk (demoDb [demoAssignment Completed [1, 2]]) 1
           = Some (demoAssignment Completed [1, 2])"
    by (simp add: RouteAssignment_findByPk_def demo_defs)
  have a: "isActive (demoAssignment Completed [1, 2])" by (simp add: demoAssignment_def)
  show ?thesis
    using C10_updateAssignment_frame [OF f a surjective_pairing]
    by (auto simp add: demoAssignment_def)
qed

subsection \<open>Claim C5\<close>

text \<open>
  RULE 1 of \<^verbatim>\<open>assignRoute\<close> looks for an active assignment of the route to any user,
  the requesting user included, and answers before RULE 2 is reached. Whenever RULE 1
  finds nothing, RULE 2, whose condition is stronger, finds nothing either: the
  \<^verbatim>\<open>USER_ROUTE_DUPLICATE\<close> response is unreachable.
\<close>

lemma find_weaker_None:
  "find P xs = None \<Longrightarrow> find (\<lambda>a. Q a \<and> P a) xs = None"
  by (auto simp: find_None_iff)

lemma RULE2_unreachable:
  "assignRouteChecks db req \<noteq> Some (DuplicateUserRouteAssignment i s)"
proof -
  have "find (\<lambda>a. userId a = ar_userId req \<and> routeId a = ar_routeId req \<and>
                   isActive a \<and> activeStatus (status a)) (assignments db) = None"
    if "find (\<lambda>a. routeId a = ar_routeId req \<and> isActive a \<and> activeStatus (status a))
          (assignments db) = None"
    using find_weaker_None [OF that, of "\<lambda>a. userId a = ar_userId req"] by simp
  then show ?thesis
    by (auto simp: assignRouteChecks_def Let_def split: option.splits if_splits)
qed

text \<open>
  C5. The claim asks for \<open>DuplicateUserRouteAssignment\<close> when the requesting user
  already holds the route. On that input the code answers \<open>RouteAlreadyAssigned\<close>,
  naming the requesting user as the holder: user 1 holds route 1 and asks for route 1
  again.
\<close>

theorem C5_duplicate_pair_reported_as_route_conflict:
  "assignRoute demoEnv (demoDb [demoAssignment Assigned []]) (demoAssignRequest 1)
   = (Inl (RouteAlreadyAssigned (Some (1, 1, Assigned))), demoDb [demoAssignment Assigned []])"
  by (simp add: assignRoute_def assignRouteChecks_def User_findByPk_def Route_findByPk_def
      activeStatus_def demoAssignRequest_def demo_defs)

subsection \<open>Status after each operation\<close>

lemma find_by_own_pk:
  "distinct (map assignmentPk xs) \<Longrightarrow> a \<in> set xs
   \<Longrightarrow> find (\<lambda>b. assignmentPk b = assignmentPk a) xs = Some a"
proof (induction xs)
  case Nil
  then show ?case by simp
next
  case (Cons x xs)
  then show ?case by (cases "x = a") (force simp: image_iff)+
qed

lemma findOne_row:
  assumes "uniquePks db" and "find P (assignments db) = Some a"
  shows "RouteAssignment_findByPk db (assignmentPk a) = Some a" and "P a"
proof -
  have "a \<in> set (assignments db)" and p: "P a"
    using assms(2) by (auto simp: find_Some_iff)
  then show "RouteAssignment_findByPk db (assignmentPk a) = Some a"
    using assms(1) by (simp add: uniquePks_def RouteAssignment_findByPk_def find_by_own_pk)
  show "P a" by (rule p)
qed

lemma status_after_update:
  assumes "\<And>a. assignmentPk (f a) = assignmentPk a"
    and "RouteAssignment_findByPk db k = Some a"
    and "statusOf db j = Some s"
  shows "statusOf (updateRow k f db) j = Some (if j = k then status (f a) else s)"
  using assms(2,3) by (simp add: statusOf_def findByPk_updateRow [of f, OF assms(1)])

lemma findByPk_scans [simp]:
  "RouteAssignment_findByPk (db\<lparr>scans := s\<rparr>) j = RouteAssignment_findByPk db j"
  by (simp add: RouteAssignment_findByPk_def)

lemma statusOf_scans [simp]: "statusOf (db\<lparr>scans := s\<rparr>) j = statusOf db j"
  by (simp add: statusOf_def)

lemma find_append_keep:
  "find P xs = Some a \<Longrightarrow> find P (xs @ ys) = Some a"
  by (induction xs) (auto split: if_splits)

lemma assignRoute_status:
  assumes "statusOf db j = Some s"
  shows "statusOf (snd (assignRoute e db req)) j = Some s"
proof (cases "assignRouteChecks db req")
  case None
  obtain a where a: "RouteAssignment_findByPk db j = Some a" and s: "status a = s"
    using assms by (auto simp: statusOf_def)
  have "RouteAssignment_findByPk (snd (assignRouteCreate e db req)) j = Some a"
    using a by (simp add: assignRouteCreate_def Let_def RouteAssignment_findByPk_def find_append_keep)
  then show ?thesis using None s
    by (simp add: assignRoute_def statusOf_def case_prod_beta)
next
  case (Some err)
  then show ?thesis using assms by (simp add: assignRoute_def)
qed

lemma assignRoute_creates_assigned:
  "fst (assignRoute e db req) = Inr a \<Longrightarrow> status a = Assigned"
  by (auto simp: assignRoute_def assignRouteCreate_def Let_def split: option.splits)

lemma startRoute_status:
  assumes "uniquePks db" and "statusOf db j = Some s"
  shows "\<exists>s'. statusOf (snd (startRoute e db ident n)) j = Some s'
              \<and> (s' = s \<or> (s = Assigned \<and> s' = InProgress))"
proof (cases ident)
  case None
  then show ?thesis using assms(2) by (simp add: startRoute_def)
next
  case (Some k)
  show ?thesis
  proof (cases "find (\<lambda>a. assignmentPk a = k \<and> isActive a \<and> status a = Assigned) (assignments db)")
    case None
    then show ?thesis using Some assms(2) by (simp add: startRoute_def)
  next
    case found: (Some a)
    note row = findOne_row [OF assms(1) found]
    define upd where "upd = (\<lambda>a::RouteAssignment. a\<lparr>status := InProgress, startDate := Some (now e),
        assignmentNotes := Some (orElse n (''Route started at '' @ nowLocale e))\<rparr>)"
    have res: "snd (startRoute e db ident n) = updateRow (assignmentPk a) upd db"
      using Some found by (simp add: startRoute_def Let_def upd_def)
    have "statusOf (updateRow (assignmentPk a) upd db) j
          = Some (if j = assignmentPk a then status (upd a) else s)"
      by (rule status_after_update [OF _ row(1) assms(2)]) (simp add: upd_def)
    moreover have "j = assignmentPk a \<Longrightarrow> s = Assigned"
      using row assms(2) by (simp add: statusOf_def)
    ultimately show ?thesis unfolding res by (auto simp: upd_def)
  qed
qed

lemma cancelAssignment_status:
  assumes "statusOf db j = Some s"
  shows "\<exists>s'. statusOf (snd (cancelAssignment e db ident n r)) j = Some s'
              \<and> (s' = s \<or> (activeStatus s \<and> s' = Cancelled))"
proof (cases ident)
  case None
  then show ?thesis using assms by (simp add: cancelAssignment_def)
next
  case (Some k)
  show ?thesis
  proof (cases "RouteAssignment_findByPk db k")
    case None
    then show ?thesis using Some assms by (simp add: cancelAssignment_def)
  next
    case found: (Some a)
    have pk: "assignmentPk a = k" using found by (rule findByPk_pk)
    show ?thesis
    proof (cases "isActive a \<and> activeStatus (status a)")
      case False
      then show ?thesis using Some found assms by (auto simp: cancelAssignment_def)
    next
      case True
      define upd where "upd = (\<lambda>a::RouteAssignment. a\<lparr>status := Cancelled, endDate := Some (now e),
        assignmentNotes := Some (orElse n (''Assignment cancelled at '' @ nowLocale e @
          ''. Reason: '' @ orElse r ''No reason provided''))\<rparr>)"
      have res: "snd (cancelAssignment e db ident n r) = updateRow k upd db"
        using Some found True pk by (simp add: cancelAssignment_def Let_def upd_def)
      have "statusOf (updateRow k upd db) j = Some (if j = k then status (upd a) else s)"
        by (rule status_after_update [OF _ found assms]) (simp add: upd_def)
      moreover have "j = k \<Longrightarrow> activeStatus s"
        using found assms True by (simp add: statusOf_def)
      ultimately show ?thesis unfolding res by (auto simp: upd_def)
    qed
  qed
qed

lemma completeRoute_status:
  assumes "uniquePks db" and "statusOf db j = Some s"
  shows "\<exists>s'. statusOf (snd (completeRoute e db ident n f)) j = Some s'
              \<and> (s' = s \<or> (s \<noteq> Completed \<and> s' = Completed))"
proof (cases ident)
  case None
  then show ?thesis using assms(2) by (simp add: completeRoute_def)
next
  case (Some k)
  show ?thesis
  proof (cases "find (\<lambda>a. assignmentPk a = k \<and> isActive a) (assignments db)")
    case None
    then show ?thesis using Some assms(2) by (simp add: completeRoute_def)
  next
    case found: (Some a)
    note row = findOne_row [OF assms(1) found]
    define upd where "upd = (\<lambda>a::RouteAssignment. a\<lparr>status := Completed, endDate := Some (now e),
        assignmentNotes := Some (orElse n (''Route completed at '' @ nowLocale e @
          (if f then '' (Force completed)'' else [])))\<rparr>)"
    have res: "snd (completeRoute e db ident n f) = db
               \<or> (status a \<noteq> Completed
                   \<and> snd (completeRoute e db ident n f) = updateRow (assignmentPk a) upd db)"
      using Some found by (simp add: completeRoute_def Let_def upd_def)
    have st: "statusOf (updateRow (assignmentPk a) upd db) j
          = Some (if j = assignmentPk a then status (upd a) else s)"
      by (rule status_after_update [OF _ row(1) assms(2)]) (simp add: upd_def)
    have same: "j = assignmentPk a \<Longrightarrow> s = status a"
      using row assms(2) by (simp add: statusOf_def)
    show ?thesis using res
    proof
      assume "snd (completeRoute e db ident n f) = db"
      then show ?thesis using assms(2) by simp
    next
      assume "status a \<noteq> Completed
              \<and> snd (completeRoute e db ident n f) = updateRow (assignmentPk a) upd db"
      then show ?thesis using st same by (auto simp: upd_def)
    qed
  qed
qed


lemma scanUpdate_pk [simp]: "assignmentPk (scanUpdate e cs b a) = assignmentPk a"
  by (simp add: scanUpdate_def)

text \<open>
  \<^verbatim>\<open>scanQRCode\<close> passes no \<^verbatim>\<open>routeId\<close> to \<^verbatim>\<open>CheckpointScan.create\<close>, so the \<^verbatim>\<open>create\<close> throws
  and the handler never reaches \<^verbatim>\<open>assignment.update\<close>: every request is answered with
  an error and the database stays as it was.
\<close>

lemma scanQRCode_answers_error: "\<exists>err. scanQRCode e db req = (Inl err, db)"
  by (auto simp: scanQRCode_def CheckpointScan_create_def Let_def
      split: sum.splits option.splits prod.splits)

lemma scanQRCode_status:
  assumes "uniquePks db" and "statusOf db j = Some s"
  shows "\<exists>s'. statusOf (snd (scanQRCode e db req)) j = Some s'
              \<and> (s' = s \<or> (s = InProgress \<and> s' = Completed))"
proof -
  obtain err where "scanQRCode e db req = (Inl err, db)"
    using scanQRCode_answers_error [of e db req] by blast
  then show ?thesis using assms(2) by simp
qed

lemma updateAssignment_status:
  assumes "statusOf db j = Some s"
  shows "\<exists>s'. statusOf (snd (updateAssignment db ident ud)) j = Some s'
              \<and> (s' = s \<or> ud_status ud = Some s')"
proof -
  have res: "snd (updateAssignment db ident ud) = db
       \<or> (\<exists>k a. RouteAssignment_findByPk db k = Some a
            \<and> snd (updateAssignment db ident ud) = updateRow k (applyFiltered ud) db)"
    by (auto simp: updateAssignment_def Let_def split: option.splits)
  then show ?thesis
  proof
    assume "snd (updateAssignment db ident ud) = db"
    then show ?thesis using assms by simp
  next
    assume "\<exists>k a. RouteAssignment_findByPk db k = Some a
            \<and> snd (updateAssignment db ident ud) = updateRow k (applyFiltered ud) db"
    then obtain k a where found: "RouteAssignment_findByPk db k = Some a"
      and r: "snd (updateAssignment db ident ud) = updateRow k (applyFiltered ud) db" by blast
    have "statusOf (updateRow k (applyFiltered ud) db) j
          = Some (if j = k then status (applyFiltered ud a) else s)"
      by (rule status_after_update [OF _ found assms]) (simp add: applyFiltered_frame)
    moreover have "j = k \<Longrightarrow> s = status a" using found assms by (simp add: statusOf_def)
    ultimately show ?thesis unfolding r
      by (auto simp: applyFiltered_def split: option.splits)
  qed
qed

subsection \<open>Claim C3\<close>

text \<open>
  C3 as claimed fails: \<^verbatim>\<open>updateAssignment\<close> copies a \<^verbatim>\<open>status\<close> key of the body into
  the row without looking at the current status, so it moves a completed assignment
  back to \<open>Assigned\<close>.
\<close>

theorem C3_update_reopens_completed:
  "statusOf (demoDb [demoAssignment Completed [1, 2, 3]]) 1 = Some Completed
   \<and> statusOf (snd (updateAssignment (demoDb [demoAssignment Completed [1, 2, 3]]) (Some 1) demoUpdate)) 1
       = Some Assigned"
  by (simp add: statusOf_def updateAssignment_def RouteAssignment_findByPk_def updateRow_def
      applyFiltered_def truthy_def demoUpdate_def demo_defs)

text \<open>
  C3, amended. With unique primary keys, for every assignment of the table:
  \<^verbatim>\<open>assignRoute\<close> leaves its status unchanged and creates its new row as \<open>Assigned\<close>;
  \<^verbatim>\<open>startRoute\<close> changes a status only from \<open>Assigned\<close> to \<open>InProgress\<close>; a scan only
  from \<open>InProgress\<close> to \<open>Completed\<close>; \<^verbatim>\<open>cancelAssignment\<close> only from \<open>Assigned\<close> or
  \<open>InProgress\<close> to \<open>Cancelled\<close>; \<^verbatim>\<open>completeRoute\<close> changes a status only to
  \<open>Completed\<close> and never changes a completed assignment; \<^verbatim>\<open>updateAssignment\<close> leaves
  the status unchanged or sets it to the status of the body.
\<close>

theorem C3_status_moves:
  assumes "uniquePks db" and "statusOf db j = Some s"
  shows "statusOf (snd (assignRoute e db areq)) j = Some s
    \<and> (\<forall>a. fst (assignRoute e db areq) = Inr a \<longrightarrow> status a = Assigned)
    \<and> (\<exists>s'. statusOf (snd (startRoute e db ident n)) j = Some s'
           \<and> (s' = s \<or> (s = Assigned \<and> s' = InProgress)))
    \<and> (\<exists>s'. statusOf (snd (scanQRCode e db sreq)) j = Some s'
           \<and> (s' = s \<or> (s = InProgress \<and> s' = Completed)))
    \<and> (\<exists>s'. statusOf (snd (cancelAssignment e db ident n r)) j = Some s'
           \<and> (s' = s \<or> (activeStatus s \<and> s' = Cancelled)))
    \<and> (\<exists>s'. statusOf (snd (completeRoute e db ident n f)) j = Some s'
           \<and> (s' = s \<or> (s \<noteq> Completed \<and> s' = Completed)))
    \<and> (\<exists>s'. statusOf (snd (updateAssignment db ident ud)) j = Some s'
           \<and> (s' = s \<or> ud_status ud = Some s'))"
proof (intro conjI allI impI)
  show "statusOf (snd (assignRoute e db areq)) j = Some s"
    by (rule assignRoute_status [OF assms(2)])
  show "status a = Assigned" if "fst (assignRoute e db areq) = Inr a" for a
    using that by (rule assignRoute_creates_assigned)
  show "\<exists>s'. statusOf (snd (startRoute e db ident n)) j = Some s'
           \<and> (s' = s \<or> (s = Assigned \<and> s' = InProgress))"
    by (rule startRoute_status [OF assms])
  show "\<exists>s'. statusOf (snd (scanQRCode e db sreq)) j = Some s'
           \<and> (s' = s \<or> (s = InProgress \<and> s' = Completed))"
    by (rule scanQRCode_status [OF assms])
  show "\<exists>s'. statusOf (snd (cancelAssignment e db ident n r)) j = Some s'
           \<and> (s' = s \<or> (activeStatus s \<and> s' = Cancelled))"
    by (rule cancelAssignment_status [OF assms(2)])
  show "\<exists>s'. statusOf (snd (completeRoute e db ident n f)) j = Some s'
           \<and> (s' = s \<or> (s \<noteq> Completed \<and> s' = Completed))"
    by (rule completeRoute_status [OF assms])
  show "\<exists>s'. statusOf (snd (updateAssignment db ident ud)) j = Some s'
           \<and> (s' = s \<or> ud_status ud = Some s')"
    by (rule updateAssignment_status [OF assms(2)])
qed

theorem C3_status_moves_witness:
  "statusOf (snd (assignRoute demoEnv (demoDb [demoAssignment Assigned []]) (demoAssignRequest 2))) 1
     = Some Assigned
   \<and> statusOf (snd (startRoute demoEnv (demoDb [demoAssignment Assigned []]) (Some 1) None)) 1
     = Some InProgress"
proof -
  have u: "uniquePks (demoDb [demoAssignment Assigned []])"
    by (simp add: uniquePks_def demo_defs)
  have f: "statusOf (demoDb [demoAssignment Assigned []]) 1 = Some Assigned"
    by (simp add: statusOf_def RouteAssignment_findByPk_def demo_defs)
  have s: "statusOf (snd (startRoute demoEnv (demoDb [demoAssignment Assigned []]) (Some 1) None)) 1
     \<noteq> Some Assigned"
    by (simp add: statusOf_def startRoute_def RouteAssignment_findByPk_def updateRow_def demo_defs)
  note c3 = C3_status_moves [OF u f, where e = demoEnv and areq = "demoAssignRequest 2"
      and ident = "Some 1" and n = None]
  have one: "statusOf (snd (assignRoute demoEnv (demoDb [demoAssignment Assigned []]) (demoAssignRequest 2))) 1
     = Some Assigned"
    by (rule c3 [THEN conjunct1])
  have "\<exists>s'. statusOf (snd (startRoute demoEnv (demoDb [demoAssignment Assigned []]) (Some 1) None)) 1
          = Some s' \<and> (s' = Assigned \<or> (Assigned = Assigned \<and> s' = InProgress))"
    by (rule c3 [THEN conjunct2, THEN conjunct2, THEN conjunct1])
  then have two: "statusOf (snd (startRoute demoEnv (demoDb [demoAssignment Assigned []]) (Some 1) None)) 1
     = Some InProgress"
    using s by auto
  show ?thesis using one two by simp
qed

subsection \<open>Claim C9\<close>

text \<open>
  C9 as claimed fails: when the checks of two requests for the same route both run
  before either \<^verbatim>\<open>create\<close>, both requests succeed and the route is held by two
  active assignments.
\<close>

theorem C9_interleaved_double_assignment:
  "\<exists>a1 a2 db'. runSchedule demoEnv [0, 1, 0, 1]
        (demoDb [], [Checking (demoAssignRequest 1), Checking (demoAssignRequest 2)])
      = (db', [Finished (Inr a1), Finished (Inr a2)])
    \<and> activeOnRoute db' 1 = [a1, a2] \<and> userId a1 = 1 \<and> userId a2 = 2"
  by (simp add: stepTask_def assignRouteChecks_def assignRouteCreate_def User_findByPk_def
      Route_findByPk_def activeStatus_def MAX_ROUTES_PER_USER_def nextAssignmentPk_def
      activeOnRoute_def demoAssignRequest_def demo_defs Let_def)

lemma find_snoc:
  "find P xs = None \<Longrightarrow> find P (xs @ [a]) = (if P a then Some a else None)"
  by (induction xs) (auto split: if_splits)

lemma find_pk_found: "find (\<lambda>u. userPk u = k) xs = Some u \<Longrightarrow> userPk u = k"
  by (auto simp: find_Some_iff)

lemma filter_none:
  "find P xs = None \<Longrightarrow> filter P xs = []"
  by (induction xs) (auto split: if_splits)

lemma stepTask_twice:
  "runSchedule e [0, 0] (db, [Checking req])
   = (snd (assignRoute e db req), [Finished (fst (assignRoute e db req))])"
  by (simp add: stepTask_def assignRoute_def split: option.splits prod.splits)

text \<open>
  C9, amended. When two \<^verbatim>\<open>assignRoute\<close> calls for the same route run one after the
  other and the first succeeds, the second (by an existing user) fails with
  \<open>RouteAlreadyAssigned\<close>, naming the first call's assignment, its holder and its
  status, and the route is held by exactly that one active assignment. The schedule
  that runs each request to its end before the next gives the same outcome.
\<close>

theorem C9_serial_assignRoute:
  assumes "assignRoute e1 db r1 = (Inr a1, db1)"
    and "ar_routeId r2 = ar_routeId r1" and "ar_userId r2 \<noteq> 0"
    and "User_findByPk db (ar_userId r2) = Some u2"
  shows "assignRoute e2 db1 r2
           = (Inl (RouteAlreadyAssigned (Some (assignmentPk a1, ar_userId r1, Assigned))), db1)
       \<and> activeOnRoute db1 (ar_routeId r1) = [a1]
       \<and> runSchedule e1 [0, 0, 1, 1] (db, [Checking r1, Checking r2])
           = (db1, [Finished (Inr a1),
                    Finished (Inl (RouteAlreadyAssigned (Some (assignmentPk a1, ar_userId r1, Assigned))))])"
proof -
  have chk: "assignRouteChecks db r1 = None"
    using assms(1) by (auto simp: assignRoute_def split: option.splits)
  have cr: "assignRouteCreate e1 db r1 = (a1, db1)"
    using assms(1) by (auto simp: assignRoute_def split: option.splits prod.splits)
  have ids: "ar_routeId r1 \<noteq> 0" "ar_userId r1 \<noteq> 0"
    using chk by (auto simp: assignRouteChecks_def split: if_splits)
  obtain u1 where u1: "User_findByPk db (ar_userId r1) = Some u1"
    using chk ids by (auto simp: assignRouteChecks_def split: option.splits)
  obtain rt where rt: "Route_findByPk db (ar_routeId r1) = Some rt" and act: "routeIsActive rt"
    using chk ids u1 by (auto simp: assignRouteChecks_def split: option.splits if_splits)
  have none: "find (\<lambda>a. routeId a = ar_routeId r1 \<and> isActive a \<and> activeStatus (status a))
                (assignments db) = None"
    using chk ids u1 rt act by (auto simp: assignRouteChecks_def split: option.splits if_splits)
  have a1: "a1 = \<lparr>assignmentPk = nextAssignmentPk db, userId = ar_userId r1, routeId = ar_routeId r1,
             policeStationId = ar_policeStationId r1, startDate = Some (now e1), endDate = None,
             status = Assigned, completedCheckpoints = [],
             assignmentNotes = Some (''Route assigned at '' @ nowLocale e1),
             isActive = True, createdAt = now e1\<rparr>"
    and db1: "db1 = db\<lparr>assignments := assignments db @ [a1]\<rparr>"
    using cr by (auto simp: assignRouteCreate_def Let_def)
  have pa: "routeId a1 = ar_routeId r1 \<and> isActive a1 \<and> activeStatus (status a1)"
    by (simp add: a1 activeStatus_def)
  have found: "find (\<lambda>a. routeId a = ar_routeId r2 \<and> isActive a \<and> activeStatus (status a))
                (assignments db1) = Some a1"
    using find_snoc [OF none, of a1] pa by (simp add: db1 assms(2))
  have users: "User_findByPk db1 k = User_findByPk db k" for k
    by (simp add: db1 User_findByPk_def)
  have routes: "Route_findByPk db1 k = Route_findByPk db k" for k
    by (simp add: db1 Route_findByPk_def)
  have pk1: "userPk u1 = ar_userId r1"
    using u1 unfolding User_findByPk_def by (rule find_pk_found)
  have holder: "userId a1 = ar_userId r1" by (simp add: a1)
  have chk2: "assignRouteChecks db1 r2
        = Some (RouteAlreadyAssigned (Some (assignmentPk a1, ar_userId r1, Assigned)))"
    using ids assms(2,3,4) u1 rt act found pk1 holder
    by (simp add: assignRouteChecks_def users routes) (simp add: a1)
  have second: "assignRoute e2 db1 r2
           = (Inl (RouteAlreadyAssigned (Some (assignmentPk a1, ar_userId r1, Assigned))), db1)"
    by (simp add: assignRoute_def chk2)
  have one: "activeOnRoute db1 (ar_routeId r1) = [a1]"
    using filter_none [OF none] pa by (simp add: activeOnRoute_def db1)
  have sched: "runSchedule e1 [0, 0, 1, 1] (db, [Checking r1, Checking r2])
           = (db1, [Finished (Inr a1),
                    Finished (Inl (RouteAlreadyAssigned (Some (assignmentPk a1, ar_userId r1, Assigned))))])"
    by (simp add: stepTask_def chk cr chk2)
  show ?thesis using second one sched by simp
qed

theorem C9_serial_assignRoute_witness:
  "\<exists>a1 db1. assignRoute demoEnv (demoDb []) (demoAssignRequest 1) = (Inr a1, db1)
     \<and> assignRoute demoEnv db1 (demoAssignRequest 2)
         = (Inl (RouteAlreadyAssigned (Some (1, 1, Assigned))), db1)
     \<and> activeOnRoute db1 1 = [a1]"
proof -
  define a1 where "a1 = fst (assignRouteCreate demoEnv (demoDb []) (demoAssignRequest 1))"
  define db1 where "db1 = snd (assignRouteCreate demoEnv (demoDb []) (demoAssignRequest 1))"
  have chk: "assignRouteChecks (demoDb []) (demoAssignRequest 1) = None"
    by (simp add: assignRouteChecks_def User_findByPk_def Route_findByPk_def
        MAX_ROUTES_PER_USER_def demoAssignRequest_def demo_defs)
  have first: "assignRoute demoEnv (demoDb []) (demoAssignRequest 1) = (Inr a1, db1)"
    using chk by (simp add: assignRoute_def case_prod_beta a1_def db1_def)
  have pk: "assignmentPk a1 = 1"
    by (simp add: a1_def assignRouteCreate_def nextAssignmentPk_def demoDb_def Let_def)
  have r: "ar_routeId (demoAssignRequest 2) = ar_routeId (demoAssignRequest 1)"
    by (simp add: demoAssignRequest_def)
  have n: "ar_userId (demoAssignRequest 2) \<noteq> 0" by (simp add: demoAssignRequest_def)
  have u: "User_findByPk (demoDb []) (ar_userId (demoAssignRequest 2))
           = Some \<lparr>userPk = 2, username = ''ravi''\<rparr>"
    by (simp add: User_findByPk_def demoAssignRequest_def demo_defs)
  have "assignRoute demoEnv db1 (demoAssignRequest 2)
         = (Inl (RouteAlreadyAssigned (Some (1, 1, Assigned))), db1)
     \<and> activeOnRoute db1 1 = [a1]"
    using C9_serial_assignRoute [OF first r n u, of demoEnv] pk
    by (simp add: demoAssignRequest_def)
  then show ?thesis using first by blast
qed

subsection \<open>Claim C4\<close>

text \<open>
  C4. A scan that answers with an error, whichever check failed, returns the
  database as it was: no \<open>CheckpointScan\<close> row is created and no assignment changes.
  In particular a request that reaches the already-scanned check for a checkpoint in
  \<open>completedCheckpoints\<close> fails with \<open>AlreadyScanned\<close>, and one whose media upload
  fails answers \<open>MediaUploadFailed\<close>, both without any write; the list of completed
  checkpoints, and with it the progress percentage, stays as it was.
\<close>

theorem C4_failed_scan_writes_nothing:
  "(scanQRCode e db req = (Inl err, db') \<longrightarrow>
      db' = db \<and> scans db' = scans db \<and> assignments db' = assignments db)
   \<and> (locateCheckpoint e db req = Inr (checkpoint, d, radius)
        \<and> find (\<lambda>a. assignmentPk a = req_assignmentId req \<and> userId a = req_userId req
                     \<and> isActive a \<and> status a = InProgress) (assignments db) = Some assignment
        \<and> Route_findByPk db (routeId assignment) = Some route
        \<and> checkpointPk checkpoint \<in> set (checkpoints route) \<longrightarrow>
          (checkpointPk checkpoint \<in> set (completedCheckpoints assignment) \<longrightarrow>
             scanQRCode e db req = (Inl AlreadyScanned, db))
        \<and> (checkpointPk checkpoint \<notin> set (completedCheckpoints assignment)
             \<and> uploadMedia e req (checkpointPk checkpoint) = None \<longrightarrow>
             scanQRCode e db req = (Inl MediaUploadFailed, db)))"
proof -
  have unchanged: "db' = db" if "scanQRCode e db req = (Inl err, db')"
    using that
    by (auto simp: scanQRCode_def CheckpointScan_create_def Let_def
        split: sum.splits option.splits prod.splits if_splits)
  have rescan: "scanQRCode e db req = (Inl AlreadyScanned, db)"
    if "locateCheckpoint e db req = Inr (checkpoint, d, radius)"
      and "find (\<lambda>a. assignmentPk a = req_assignmentId req \<and> userId a = req_userId req
                     \<and> isActive a \<and> status a = InProgress) (assignments db) = Some assignment"
      and "Route_findByPk db (routeId assignment) = Some route"
      and "checkpointPk checkpoint \<in> set (checkpoints route)"
      and "checkpointPk checkpoint \<in> set (completedCheckpoints assignment)"
    using that by (simp add: scanQRCode_def)
  have upload: "scanQRCode e db req = (Inl MediaUploadFailed, db)"
    if "locateCheckpoint e db req = Inr (checkpoint, d, radius)"
      and "find (\<lambda>a. assignmentPk a = req_assignmentId req \<and> userId a = req_userId req
                     \<and> isActive a \<and> status a = InProgress) (assignments db) = Some assignment"
      and "Route_findByPk db (routeId assignment) = Some route"
      and "checkpointPk checkpoint \<in> set (checkpoints route)"
      and "checkpointPk checkpoint \<notin> set (completedCheckpoints assignment)"
      and "uploadMedia e req (checkpointPk checkpoint) = None"
    using that by (simp add: scanQRCode_def)
  show ?thesis using unchanged rescan upload by blast
qed

lemma locate_demo_A:
  "locateCheckpoint demoEnv (demoDb rows) (demoScan ''CP_A'' 0)
   = Inr (demoCheckpoint 1 ''CP_A'' 0 (Some 100), Num 0, 100)"
  by (simp add: locateCheckpoint_def validateLatLong_def effectiveRadius_def distance_exactMath
      realDistance_self demoScan_def demoDb_def demoCheckpoint_def demoEnv_def)

theorem C4_failed_scan_writes_nothing_witness:
  "scanQRCode demoEnv (demoDb [demoAssignment InProgress [1]]) (demoScan ''CP_A'' 0)
   = (Inl AlreadyScanned, demoDb [demoAssignment InProgress [1]])"
proof -
  have f: "find (\<lambda>a. assignmentPk a = req_assignmentId (demoScan ''CP_A'' 0)
                    \<and> userId a = req_userId (demoScan ''CP_A'' 0)
                    \<and> isActive a \<and> status a = InProgress)
             (assignments (demoDb [demoAssignment InProgress [1]]))
           = Some (demoAssignment InProgress [1])"
    by (simp add: demoScan_def demoDb_def demoAssignment_def)
  have r: "Route_findByPk (demoDb [demoAssignment InProgress [1]])
             (routeId (demoAssignment InProgress [1])) = Some demoRoute"
    by (simp add: Route_findByPk_def demo_defs)
  have m: "checkpointPk (demoCheckpoint 1 ''CP_A'' 0 (Some 100)) \<in> set (checkpoints demoRoute)"
    by (simp add: demoCheckpoint_def demoRoute_def)
  have c: "checkpointPk (demoCheckpoint 1 ''CP_A'' 0 (Some 100))
           \<in> set (completedCheckpoints (demoAssignment InProgress [1]))"
    by (simp add: demoCheckpoint_def demoAssignment_def)
  show ?thesis
    using C4_failed_scan_writes_nothing [THEN conjunct2, rule_format, OF conjI [OF locate_demo_A conjI [OF f conjI [OF r m]]], THEN conjunct1, rule_format, OF c]
    by simp
qed

subsection \<open>Claim C2\<close>

text \<open>
  The radius check of \<open>locateCheckpoint\<close> for a request that reaches it.
\<close>

lemma locateCheckpoint_reached:
  assumes "req_userId req \<noteq> 0" and "req_assignmentId req \<noteq> 0"
    and "validateLatLong (req_userLatLong req) = Inr (userLat, userLng)"
    and "req_qrData req = QrObject qrId ''checkpoint''" and "qrId \<noteq> []"
    and "find (\<lambda>c. qrCode c = Some qrId \<and> checkpointIsActive c) (checkpointTable db) = Some checkpoint"
  shows "locateCheckpoint e db req =
     (if js_le (distance (math e) userLat userLng (latitude checkpoint) (longitude checkpoint))
           (Num (real_of_int (effectiveRadius checkpoint)))
      then Inr (checkpoint,
                distance (math e) userLat userLng (latitude checkpoint) (longitude checkpoint),
                effectiveRadius checkpoint)
      else Inl (OutOfRange
             (js_round (distance (math e) userLat userLng (latitude checkpoint)
                          (longitude checkpoint)))
             (effectiveRadius checkpoint)))"
proof -
  have "req_userLatLong req \<noteq> LatLongMissing"
    using assms(3) by (auto simp: validateLatLong_def)
  then show ?thesis
    using assms by (simp add: locateCheckpoint_def Let_def)
qed

lemma scanQRCode_after_locate_not_OutOfRange:
  "locateCheckpoint e db req = Inr loc \<Longrightarrow> fst (scanQRCode e db req) \<noteq> Inl (OutOfRange shown rad)"
  by (auto simp: scanQRCode_def CheckpointScan_create_def Let_def split: option.splits prod.splits)

text \<open>
  A distance computed as \<^verbatim>\<open>NaN\<close> fails the test \<^verbatim>\<open>distance <= scanRadius\<close>: the request is
  refused with \<open>OutOfRange\<close>, and the distance reported is \<^verbatim>\<open>NaN\<close>.
\<close>

lemma scanQRCode_NaN_distance:
  assumes "req_userId req \<noteq> 0" and "req_assignmentId req \<noteq> 0"
    and "validateLatLong (req_userLatLong req) = Inr (userLat, userLng)"
    and "req_qrData req = QrObject qrId ''checkpoint''" and "qrId \<noteq> []"
    and "find (\<lambda>c. qrCode c = Some qrId \<and> checkpointIsActive c) (checkpointTable db) = Some checkpoint"
    and "distance (math e) userLat userLng (latitude checkpoint) (longitude checkpoint) = NaN"
  shows "scanQRCode e db req = (Inl (OutOfRange NaN (effectiveRadius checkpoint)), db)"
  using locateCheckpoint_reached [OF assms(1-6), of e] assms(7) by (simp add: scanQRCode_def)

text \<open>
  C2, amended. For a scan request that passes the position, QR and checkpoint
  checks and whose distance the handler computes as a number \<open>d\<close>, the scan fails with
  \<open>OutOfRange\<close> exactly when \<open>d\<close> is strictly greater than the radius in force; the
  failure writes nothing and reports \<^verbatim>\<open>Math.round(d)\<close> and the radius in force. The
  radius in force is the checkpoint's \<open>scanRadius\<close> when that is set and not zero,
  and 50 otherwise. It holds whatever the arithmetic of the runtime.
\<close>

theorem C2_out_of_range:
  assumes "req_userId req \<noteq> 0" and "req_assignmentId req \<noteq> 0"
    and "validateLatLong (req_userLatLong req) = Inr (userLat, userLng)"
    and "req_qrData req = QrObject qrId ''checkpoint''" and "qrId \<noteq> []"
    and "find (\<lambda>c. qrCode c = Some qrId \<and> checkpointIsActive c) (checkpointTable db) = Some checkpoint"
    and "distance (math e) userLat userLng (latitude checkpoint) (longitude checkpoint) = Num d"
  shows "((\<exists>shown rad. fst (scanQRCode e db req) = Inl (OutOfRange shown rad))
            \<longleftrightarrow> real_of_int (effectiveRadius checkpoint) < d)
       \<and> (real_of_int (effectiveRadius checkpoint) < d \<longrightarrow>
          scanQRCode e db req =
            (Inl (OutOfRange (js_round (Num d)) (effectiveRadius checkpoint)), db))
       \<and> (\<forall>r. scanRadius checkpoint = Some r \<and> r \<noteq> 0 \<longrightarrow> effectiveRadius checkpoint = r)
       \<and> (scanRadius checkpoint = None \<or> scanRadius checkpoint = Some 0 \<longrightarrow>
            effectiveRadius checkpoint = 50)"
proof -
  let ?r = "effectiveRadius checkpoint"
  have loc: "locateCheckpoint e db req =
     (if d \<le> real_of_int ?r then Inr (checkpoint, Num d, ?r)
      else Inl (OutOfRange (js_round (Num d)) ?r))"
    unfolding locateCheckpoint_reached [OF assms(1-6), of e] assms(7) by simp
  have far: "scanQRCode e db req = (Inl (OutOfRange (js_round (Num d)) ?r), db)"
    if "real_of_int ?r < d"
    using that unfolding scanQRCode_def loc by simp
  have near: "fst (scanQRCode e db req) \<noteq> Inl (OutOfRange shown rad)"
    if "d \<le> real_of_int ?r" for shown rad
  proof -
    have "locateCheckpoint e db req = Inr (checkpoint, Num d, ?r)"
      using that unfolding loc by simp
    then show ?thesis by (rule scanQRCode_after_locate_not_OutOfRange)
  qed
  have iff: "(\<exists>shown rad. fst (scanQRCode e db req) = Inl (OutOfRange shown rad))
             \<longleftrightarrow> real_of_int ?r < d"
  proof (cases "real_of_int ?r < d")
    case True
    then show ?thesis using far by simp
  next
    case False
    then have "d \<le> real_of_int ?r" by simp
    then show ?thesis using near False by blast
  qed
  have r1: "\<forall>r. scanRadius checkpoint = Some r \<and> r \<noteq> 0 \<longrightarrow> ?r = r"
    by (simp add: effectiveRadius_def)
  have r2: "scanRadius checkpoint = None \<or> scanRadius checkpoint = Some 0 \<longrightarrow> ?r = 50"
    by (auto simp: effectiveRadius_def)
  show ?thesis using iff far r1 r2 by blast
qed

text \<open>Three distances along the prime meridian, computed without rounding.\<close>

lemma distance_near_B:
  "distance (math demoEnv) (9999 / 10000) 0 1 0 = Num (earthRadius * (pi / 1800000))"
proof -
  have "realDistance (9999 / 10000) 0 1 0 = earthRadius * ((1 - 9999 / 10000) * pi / 180)"
    by (rule realDistance_meridian) simp_all
  then show ?thesis by (simp add: demoEnv_def distance_exactMath)
qed

lemma distance_near_B_bounds:
  "0 < earthRadius * (pi / 1800000)" "earthRadius * (pi / 1800000) \<le> 50"
proof -
  show "0 < earthRadius * (pi / 1800000)"
    by (simp add: earthRadius_def)
  have "earthRadius * (pi / 1800000) \<le> earthRadius * (4 / 1800000)"
    using pi_less_4 by (simp add: earthRadius_def)
  then show "earthRadius * (pi / 1800000) \<le> 50"
    by (simp add: earthRadius_def)
qed

lemma distance_near_C:
  "distance (math demoEnv) (199999 / 100000) 0 2 0 = Num (earthRadius * (pi / 18000000))"
proof -
  have "realDistance (199999 / 100000) 0 2 0
        = earthRadius * ((2 - 199999 / 100000) * pi / 180)"
    by (rule realDistance_meridian) simp_all
  then show ?thesis by (simp add: demoEnv_def distance_exactMath)
qed

lemma distance_near_C_bounds:
  "1 < earthRadius * (pi / 18000000)" "earthRadius * (pi / 18000000) < 3 / 2"
proof -
  have "earthRadius * (3 / 18000000) \<le> earthRadius * (pi / 18000000)"
    using pi_ge_three by (simp add: earthRadius_def)
  then show "1 < earthRadius * (pi / 18000000)"
    by (simp add: earthRadius_def)
  have "earthRadius * (pi / 18000000) < earthRadius * (4 / 18000000)"
    using pi_less_4 by (simp add: earthRadius_def)
  then show "earthRadius * (pi / 18000000) < 3 / 2"
    by (simp add: earthRadius_def)
qed

lemma distance_far_A:
  "distance (math demoEnv) 1 0 0 0 = Num (earthRadius * (pi / 180))"
  "100 < earthRadius * (pi / 180)"
proof -
  have "realDistance 1 0 0 0 = realDistance 0 0 1 0" by (rule realDistance_sym)
  also have "\<dots> = earthRadius * ((1 - 0) * pi / 180)"
    by (rule realDistance_meridian) simp_all
  finally have "realDistance 1 0 0 0 = earthRadius * (pi / 180)" by simp
  then show "distance (math demoEnv) 1 0 0 0 = Num (earthRadius * (pi / 180))"
    by (simp add: demoEnv_def distance_exactMath)
  have "earthRadius * (2 / 180) \<le> earthRadius * (pi / 180)"
    using pi_ge_two by (simp add: earthRadius_def)
  then show "100 < earthRadius * (pi / 180)" by (simp add: earthRadius_def)
qed

text \<open>
  C2 as claimed fails in two ways.

  It fails for a checkpoint configured with radius 0. Checkpoint B lies at latitude 1
  with \<open>scanRadius = 0\<close>. A scan from latitude 0.9999 is about 11 m away, farther than
  the configured radius, and is not refused with \<open>OutOfRange\<close>:
  \<^verbatim>\<open>checkpoint.scanRadius || 50\<close> turns the radius into 50, the request passes every
  check, and it ends in the 500 of the failing \<^verbatim>\<open>create\<close>.

  The failure does not report the computed distance. Checkpoint C lies at latitude 2
  with \<open>scanRadius = 1\<close>. A scan from latitude 1.99999 is about 1.11 m away; it is
  refused, and the distance reported is \<^verbatim>\<open>Math.round(distance)\<close>, which is 1.
\<close>

theorem C2_zero_radius_and_rounded_report:
  "scanRadius (demoCheckpoint 2 ''CP_B'' 1 (Some 0)) = Some 0
   \<and> find (\<lambda>c. qrCode c = Some ''CP_B'' \<and> checkpointIsActive c)
        (checkpointTable (demoDb [demoAssignment InProgress []]))
       = Some (demoCheckpoint 2 ''CP_B'' 1 (Some 0))
   \<and> distance (math demoEnv) (9999 / 10000) 0 1 0 = Num (earthRadius * (pi / 1800000))
   \<and> real_of_int 0 < earthRadius * (pi / 1800000)
   \<and> scanQRCode demoEnv (demoDb [demoAssignment InProgress []]) (demoScan ''CP_B'' (9999 / 10000))
       = (Inl InternalError, demoDb [demoAssignment InProgress []])
   \<and> find (\<lambda>c. qrCode c = Some ''CP_C'' \<and> checkpointIsActive c)
        (checkpointTable (demoDb [demoAssignment InProgress []]))
       = Some (demoCheckpoint 3 ''CP_C'' 2 (Some 1))
   \<and> distance (math demoEnv) (199999 / 100000) 0 2 0 = Num (earthRadius * (pi / 18000000))
   \<and> scanQRCode demoEnv (demoDb [demoAssignment InProgress []]) (demoScan ''CP_C'' (199999 / 100000))
       = (Inl (OutOfRange (Num 1) 1), demoDb [demoAssignment InProgress []])
   \<and> earthRadius * (pi / 18000000) \<noteq> 1"
proof -
  let ?db = "demoDb [demoAssignment InProgress []]"
  have locB: "locateCheckpoint demoEnv ?db (demoScan ''CP_B'' (9999 / 10000))
     = Inr (demoCheckpoint 2 ''CP_B'' 1 (Some 0), Num (earthRadius * (pi / 1800000)), 50)"
    using distance_near_B distance_near_B_bounds(2)
    by (simp add: locateCheckpoint_def validateLatLong_def effectiveRadius_def
        demoScan_def demoDb_def demoCheckpoint_def)
  have b: "scanQRCode demoEnv ?db (demoScan ''CP_B'' (9999 / 10000)) = (Inl InternalError, ?db)"
    unfolding scanQRCode_def locB
    by (simp add: Let_def Route_findByPk_def uploadMedia_def uploadAll_def
        CheckpointScan_create_def
        demoScan_def demoDb_def demoAssignment_def demoRoute_def demoCheckpoint_def demoEnv_def)
  have fl: "\<lfloor>earthRadius * (pi / 18000000) + 1 / 2\<rfloor> = 1"
    using distance_near_C_bounds by (intro floor_unique) simp_all
  have locC: "locateCheckpoint demoEnv ?db (demoScan ''CP_C'' (199999 / 100000))
     = Inl (OutOfRange (Num 1) 1)"
    using distance_near_C distance_near_C_bounds(1) fl
    by (simp add: locateCheckpoint_def validateLatLong_def effectiveRadius_def
        demoScan_def demoDb_def demoCheckpoint_def)
  have c: "scanQRCode demoEnv ?db (demoScan ''CP_C'' (199999 / 100000))
     = (Inl (OutOfRange (Num 1) 1), ?db)"
    unfolding scanQRCode_def locC by simp
  have ne: "earthRadius * (pi / 18000000) \<noteq> 1"
    using distance_near_C_bounds(1) by simp
  have fB: "find (\<lambda>c. qrCode c = Some ''CP_B'' \<and> checkpointIsActive c) (checkpointTable ?db)
       = Some (demoCheckpoint 2 ''CP_B'' 1 (Some 0))"
    and fC: "find (\<lambda>c. qrCode c = Some ''CP_C'' \<and> checkpointIsActive c) (checkpointTable ?db)
       = Some (demoCheckpoint 3 ''CP_C'' 2 (Some 1))"
    and rB: "scanRadius (demoCheckpoint 2 ''CP_B'' 1 (Some 0)) = Some 0"
    by (simp_all add: demoDb_def demoCheckpoint_def)
  show ?thesis
    using rB fB distance_near_B distance_near_B_bounds(1) b fC distance_near_C c ne
    by (intro conjI) simp_all
qed

theorem C2_out_of_range_witness:
  "scanQRCode demoEnv (demoDb [demoAssignment InProgress []]) (demoScan ''CP_A'' 1)
     = (Inl (OutOfRange (js_round (Num (earthRadius * (pi / 180)))) 100),
        demoDb [demoAssignment InProgress []])
   \<and> \<not> (\<exists>shown rad. fst (scanQRCode demoEnv (demoDb [demoAssignment InProgress []])
                          (demoScan ''CP_A'' 0)) = Inl (OutOfRange shown rad))"
proof -
  have u: "req_userId (demoScan qr lat) \<noteq> 0" and a: "req_assignmentId (demoScan qr lat) \<noteq> 0"
    and q: "req_qrData (demoScan qr lat) = QrObject qr ''checkpoint''" for qr lat
    by (simp_all add: demoScan_def)
  have v0: "validateLatLong (req_userLatLong (demoScan ''CP_A'' 0)) = Inr (0, 0)"
    and v1: "validateLatLong (req_userLatLong (demoScan ''CP_A'' 1)) = Inr (1, 0)"
    by (simp_all add: demoScan_def validateLatLong_def)
  have n: "''CP_A'' \<noteq> []" by simp
  have f: "find (\<lambda>c. qrCode c = Some ''CP_A'' \<and> checkpointIsActive c)
             (checkpointTable (demoDb [demoAssignment InProgress []]))
           = Some (demoCheckpoint 1 ''CP_A'' 0 (Some 100))"
    by (simp add: demoDb_def demoCheckpoint_def)
  have geo: "latitude (demoCheckpoint 1 ''CP_A'' 0 (Some 100)) = 0"
    "longitude (demoCheckpoint 1 ''CP_A'' 0 (Some 100)) = 0"
    "effectiveRadius (demoCheckpoint 1 ''CP_A'' 0 (Some 100)) = 100"
    by (simp_all add: demoCheckpoint_def effectiveRadius_def)
  have d1: "distance (math demoEnv) 1 0 (latitude (demoCheckpoint 1 ''CP_A'' 0 (Some 100)))
              (longitude (demoCheckpoint 1 ''CP_A'' 0 (Some 100)))
            = Num (earthRadius * (pi / 180))"
    unfolding geo by (rule distance_far_A(1))
  have d0: "distance (math demoEnv) 0 0 (latitude (demoCheckpoint 1 ''CP_A'' 0 (Some 100)))
              (longitude (demoCheckpoint 1 ''CP_A'' 0 (Some 100)))
            = Num 0"
    unfolding geo by (simp add: demoEnv_def distance_exactMath realDistance_self)
  note far = C2_out_of_range [OF u a v1 q n f d1, THEN conjunct2, THEN conjunct1]
  note near = C2_out_of_range [OF u a v0 q n f d0, THEN conjunct1]
  have one: "scanQRCode demoEnv (demoDb [demoAssignment InProgress []]) (demoScan ''CP_A'' 1)
     = (Inl (OutOfRange (js_round (Num (earthRadius * (pi / 180)))) 100),
        demoDb [demoAssignment InProgress []])"
    using far [unfolded geo] distance_far_A(2) by simp
  have two: "\<not> (\<exists>shown rad. fst (scanQRCode demoEnv (demoDb [demoAssignment InProgress []])
                          (demoScan ''CP_A'' 0)) = Inl (OutOfRange shown rad))"
    using near [unfolded geo] by simp
  show ?thesis using one two by simp
qed

subsection \<open>Claim C1\<close>



end
